theory Spec2Isabelle
  imports Main "HOL-Library.Word" "HOL-Library.Finite_Map" "HOL-Library.Extended_Nat"
begin

unbundle bit_operations_syntax

section \<open>Common types\<close>

text \<open>
  \<open>size_t\<close> is a 64-bit unsigned integer: arithmetic on it wraps around.
  \<open>page_id_t\<close> is a signed integer whose reserved value \<open>INVALID_PAGE_ID\<close> is \<open>-1\<close>.
  A \<open>frame_id_t\<close> is only ever used as an index into the frame array and as a key of
  the replacer, so it is a natural number here. A data member \<open>x_\<close> of a C++ class
  is the field \<open>x'\<close> of the corresponding record.
\<close>

type_synonym size_t = "64 word"
type_synonym page_id_t = int
type_synonym frame_id_t = nat

definition INVALID_PAGE_ID :: page_id_t where
  "INVALID_PAGE_ID = -1"

text \<open>
  The ways an operation can fail instead of returning: \<open>std::out_of_range\<close> from
  \<open>unordered_map::at\<close>, the \<open>ExecutionException\<close> thrown by
  \<open>LRUKReplacer::Remove\<close>, a failed \<open>BUSTUB_ASSERT\<close>, an array index far outside
  the array, and a page that is read at a type other than the one it was written at
  (the bytes a \<open>reinterpret_cast\<close> would then show depend on the memory layout, which
  is not modelled).
\<close>

datatype error = OutOfRange | ExecutionException | AssertionFailure | OutOfBounds | PageTypeMismatch

section \<open>LRU-K replacer (src/buffer/lru_k_replacer.cpp)\<close>

record LRUKNode =
  history' :: "size_t list"
  k' :: nat
  fid' :: frame_id_t
  is_evictable' :: bool

text \<open>
  The node store is an \<open>unordered_map\<close>; the order in which \<open>Evict\<close> iterates over it
  is not specified by the language, so the store is an association list with unique
  keys and the iteration order is the order of the list, whatever it is.
\<close>

record LRUKReplacer =
  node_store' :: "(frame_id_t \<times> LRUKNode) list"
  current_timestamp' :: size_t
  curr_size' :: size_t
  replacer_size' :: nat
  replacer_k' :: nat

text \<open>
  Modelled from the spec: the constructor of \<open>LRUKNode\<close> lives in a header that is
  not among the sources. A node created by \<open>RecordAccess\<close> has an empty history and
  is not evictable.
\<close>

definition new_LRUKNode :: "frame_id_t \<Rightarrow> nat \<Rightarrow> LRUKNode" where
  "new_LRUKNode fid k = \<lparr>history' = [], k' = k, fid' = fid, is_evictable' = False\<rparr>"

definition new_LRUKReplacer :: "nat \<Rightarrow> nat \<Rightarrow> LRUKReplacer" where
  "new_LRUKReplacer num_frames k =
     \<lparr>node_store' = [], current_timestamp' = 0, curr_size' = 0,
      replacer_size' = num_frames, replacer_k' = k\<rparr>"

text \<open>\<open>LRUKNode::Access\<close>: append the timestamp, drop the oldest one beyond \<open>k_\<close>.\<close>

definition Access :: "size_t \<Rightarrow> LRUKNode \<Rightarrow> LRUKNode" where
  "Access timestamp n =
     (let h = history' n @ [timestamp]
      in n\<lparr>history' := (if length h > k' n then tl h else h)\<rparr>)"

text \<open>\<open>LRUKNode::SetEvictable\<close> returns whether the flag changed.\<close>

definition node_SetEvictable :: "bool \<Rightarrow> LRUKNode \<Rightarrow> bool \<times> LRUKNode" where
  "node_SetEvictable evictable n =
     (evictable \<noteq> is_evictable' n, n\<lparr>is_evictable' := evictable\<rparr>)"

text \<open>
  \<open>LRUKNode::operator<\<close>. Both size tests use the \<open>k_\<close> of the left operand, as the
  source does. \<open>back()\<close> and \<open>front()\<close> are \<open>last\<close> and \<open>hd\<close>; on an empty
  history the C++ is undefined, and every node the replacer creates has a non-empty
  history as soon as \<open>k_ > 0\<close>.
\<close>

definition node_less :: "LRUKNode \<Rightarrow> LRUKNode \<Rightarrow> bool" where
  "node_less a b =
     (if length (history' a) < k' a then
        (if length (history' b) < k' a then last (history' a) < last (history' b)
         else True)
      else
        (if length (history' b) < k' a then False
         else hd (history' a) < hd (history' b)))"

text \<open>The scan of \<open>Evict\<close>: \<open>victim\<close> is the pointer, \<open>None\<close> for \<open>nullptr\<close>.\<close>

fun evict_scan :: "(frame_id_t \<times> LRUKNode) list \<Rightarrow> LRUKNode option \<Rightarrow> LRUKNode option" where
  "evict_scan [] victim = victim"
| "evict_scan (p # ps) victim =
     (if \<not> is_evictable' (snd p) then evict_scan ps victim
      else (case victim of
              None \<Rightarrow> evict_scan ps (Some (snd p))
            | Some v \<Rightarrow> if node_less (snd p) v then evict_scan ps (Some (snd p))
                        else evict_scan ps victim))"

text \<open>\<open>Evict\<close> returns the frame id, \<open>None\<close> when the C++ returns \<open>false\<close>.\<close>

definition Evict :: "LRUKReplacer \<Rightarrow> frame_id_t option \<times> LRUKReplacer" where
  "Evict r =
     (case evict_scan (node_store' r) None of
        None \<Rightarrow> (None, r)
      | Some victim \<Rightarrow>
          (Some (fid' victim),
           r\<lparr>node_store' := AList.delete (fid' victim) (node_store' r),
             curr_size' := curr_size' r - 1\<rparr>))"

definition RecordAccess :: "frame_id_t \<Rightarrow> LRUKReplacer \<Rightarrow> LRUKReplacer" where
  "RecordAccess frame_id r =
     (let node = (case map_of (node_store' r) frame_id of
                    None \<Rightarrow> new_LRUKNode frame_id (replacer_k' r)
                  | Some n \<Rightarrow> n)
      in r\<lparr>node_store' := AList.update frame_id (Access (current_timestamp' r) node) (node_store' r),
           current_timestamp' := current_timestamp' r + 1\<rparr>)"

definition SetEvictable :: "frame_id_t \<Rightarrow> bool \<Rightarrow> LRUKReplacer \<Rightarrow> error + LRUKReplacer" where
  "SetEvictable frame_id set_evictable r =
     (case map_of (node_store' r) frame_id of
        None \<Rightarrow> Inl OutOfRange
      | Some node \<Rightarrow>
          (let (changed, node') = node_SetEvictable set_evictable node;
               r' = r\<lparr>node_store' := AList.update frame_id node' (node_store' r)\<rparr>
           in Inr (if changed
                   then r'\<lparr>curr_size' := (if set_evictable then curr_size' r + 1 else curr_size' r - 1)\<rparr>
                   else r')))"

definition Remove :: "frame_id_t \<Rightarrow> LRUKReplacer \<Rightarrow> error + LRUKReplacer" where
  "Remove frame_id r =
     (case map_of (node_store' r) frame_id of
        None \<Rightarrow> Inr r
      | Some node \<Rightarrow>
          if \<not> is_evictable' node then Inl ExecutionException
          else Inr (r\<lparr>node_store' := AList.delete frame_id (node_store' r),
                      curr_size' := curr_size' r - 1\<rparr>))"

definition Size :: "LRUKReplacer \<Rightarrow> size_t" where
  "Size r = curr_size' r"

section \<open>Buffer pool manager (src/buffer/buffer_pool_manager.cpp)\<close>

type_synonym page_data = "8 word list"

record Page =
  data' :: page_data
  page_id' :: page_id_t
  pin_count' :: int
  is_dirty' :: bool

text \<open>
  Modelled from the spec: the disk scheduler and the disk manager are not among the
  sources. A request is executed at once (every caller waits for its completion
  signal before going on); the disk is a store of page images, and the log keeps every
  request in the order it was scheduled. Reading a page that was never written leaves
  the buffer as it was.
\<close>

datatype DiskRequest = WriteRequest page_id_t page_data | ReadRequest page_id_t

record Disk =
  disk_pages' :: "page_id_t \<Rightarrow> page_data option"
  disk_log' :: "DiskRequest list"

definition schedule_write :: "page_id_t \<Rightarrow> page_data \<Rightarrow> Disk \<Rightarrow> Disk" where
  "schedule_write pid buf d =
     d\<lparr>disk_pages' := (disk_pages' d)(pid \<mapsto> buf), disk_log' := disk_log' d @ [WriteRequest pid buf]\<rparr>"

definition schedule_read :: "page_id_t \<Rightarrow> page_data \<Rightarrow> Disk \<Rightarrow> page_data \<times> Disk" where
  "schedule_read pid buf d =
     ((case disk_pages' d pid of None \<Rightarrow> buf | Some img \<Rightarrow> img),
      d\<lparr>disk_log' := disk_log' d @ [ReadRequest pid]\<rparr>)"

record BufferPoolManager =
  pool_size' :: nat
  pages' :: "Page list"
  page_table' :: "page_id_t \<Rightarrow> frame_id_t option"
  free_list' :: "frame_id_t list"
  replacer' :: LRUKReplacer
  next_page_id' :: page_id_t
  disk' :: Disk

text \<open>
  Modelled from the spec: \<open>Page\<close> is declared in a header that is not among the
  sources. A fresh frame holds \<open>page_size\<close> zero bytes, no page, no pin and is clean;
  \<open>ResetMemory\<close> zeroes the buffer. The constant \<open>BUSTUB_PAGE_SIZE\<close> is a
  parameter.
\<close>

definition ResetMemory :: "nat \<Rightarrow> Page \<Rightarrow> Page" where
  "ResetMemory page_size p = p\<lparr>data' := replicate page_size 0\<rparr>"

definition new_Page :: "nat \<Rightarrow> Page" where
  "new_Page page_size =
     \<lparr>data' = replicate page_size 0, page_id' = INVALID_PAGE_ID, pin_count' = 0, is_dirty' = False\<rparr>"

definition new_BufferPoolManager :: "nat \<Rightarrow> nat \<Rightarrow> nat \<Rightarrow> BufferPoolManager" where
  "new_BufferPoolManager page_size pool_size replacer_k =
     \<lparr>pool_size' = pool_size,
      pages' = replicate pool_size (new_Page page_size),
      page_table' = Map.empty,
      free_list' = [0 ..< pool_size],
      replacer' = new_LRUKReplacer pool_size replacer_k,
      next_page_id' = 0,
      disk' = \<lparr>disk_pages' = Map.empty, disk_log' = []\<rparr>\<rparr>"

text \<open>
  Step 1 of \<open>NewPage\<close> and step 2 of \<open>FetchPage\<close>: take the front of the free list,
  or ask the replacer for a victim. The result is the frame, whether it came from the
  free list, and the pool with the free list or the replacer updated.
\<close>

definition pick_frame :: "BufferPoolManager \<Rightarrow> (frame_id_t \<times> bool \<times> BufferPoolManager) option" where
  "pick_frame s =
     (case free_list' s of
        f # rest \<Rightarrow> Some (f, True, s\<lparr>free_list' := rest\<rparr>)
      | [] \<Rightarrow>
          (case Evict (replacer' s) of
             (None, _) \<Rightarrow> None
           | (Some f, r') \<Rightarrow> Some (f, False, s\<lparr>replacer' := r'\<rparr>)))"

text \<open>The write-back of a dirty frame, shared by \<open>NewPage\<close> and \<open>FetchPage\<close>.\<close>

definition write_back :: "Page \<Rightarrow> Disk \<Rightarrow> Disk" where
  "write_back frame d =
     (if is_dirty' frame then schedule_write (page_id' frame) (data' frame) d else d)"

text \<open>
  \<open>NewPage\<close> returns the new page id and the frame (the index of the \<open>Page\<close> the
  C++ returns a pointer to), or \<open>None\<close> for \<open>nullptr\<close>.
\<close>

definition NewPage :: "BufferPoolManager \<Rightarrow> error + ((page_id_t \<times> frame_id_t) option \<times> BufferPoolManager)" where
  "NewPage s =
     (case pick_frame s of
        None \<Rightarrow> Inr (None, s)
      | Some (frame_id, is_free, s1) \<Rightarrow>
          (let frame = pages' s1 ! frame_id;
               pt = (if \<not> is_free then (page_table' s1)(page_id' frame := None) else page_table' s1);
               d = write_back frame (disk' s1);
               pid = next_page_id' s1;
               frame' = frame\<lparr>is_dirty' := False, pin_count' := 1, page_id' := pid\<rparr>
           in case SetEvictable frame_id False (RecordAccess frame_id (replacer' s1)) of
                Inl e \<Rightarrow> Inl e
              | Inr r \<Rightarrow>
                  Inr (Some (pid, frame_id),
                       s1\<lparr>pages' := (pages' s1)[frame_id := frame'],
                          page_table' := pt(pid \<mapsto> frame_id),
                          replacer' := r,
                          next_page_id' := pid + 1,
                          disk' := d\<rparr>)))"

definition FetchPage :: "page_id_t \<Rightarrow> BufferPoolManager \<Rightarrow> error + (frame_id_t option \<times> BufferPoolManager)" where
  "FetchPage page_id s =
     (case page_table' s page_id of
        Some frame_id \<Rightarrow>
          (let page = pages' s ! frame_id;
               page' = page\<lparr>pin_count' := pin_count' page + 1\<rparr>
           in case SetEvictable frame_id False (RecordAccess frame_id (replacer' s)) of
                Inl e \<Rightarrow> Inl e
              | Inr r \<Rightarrow> Inr (Some frame_id, s\<lparr>pages' := (pages' s)[frame_id := page'], replacer' := r\<rparr>))
      | None \<Rightarrow>
          (case pick_frame s of
             None \<Rightarrow> Inr (None, s)
           | Some (frame_id, is_free, s1) \<Rightarrow>
               (let frame = pages' s1 ! frame_id;
                    pt = (if \<not> is_free then (page_table' s1)(page_id' frame := None) else page_table' s1);
                    d = write_back frame (disk' s1);
                    (buf, d') = schedule_read page_id (data' frame) d;
                    frame' = frame\<lparr>data' := buf, is_dirty' := False, pin_count' := 1, page_id' := page_id\<rparr>
                in case SetEvictable frame_id False (RecordAccess frame_id (replacer' s1)) of
                     Inl e \<Rightarrow> Inl e
                   | Inr r \<Rightarrow>
                       Inr (Some frame_id,
                            s1\<lparr>pages' := (pages' s1)[frame_id := frame'],
                               page_table' := pt(page_id \<mapsto> frame_id),
                               replacer' := r,
                               disk' := d'\<rparr>))))"

definition UnpinPage :: "page_id_t \<Rightarrow> bool \<Rightarrow> BufferPoolManager \<Rightarrow> error + (bool \<times> BufferPoolManager)" where
  "UnpinPage page_id is_dirty s =
     (case page_table' s page_id of
        None \<Rightarrow> Inr (False, s)
      | Some frame_id \<Rightarrow>
          (let frame = pages' s ! frame_id
           in if pin_count' frame = 0 then Inr (False, s)
              else
                (let frame' = frame\<lparr>pin_count' := pin_count' frame - 1,
                                     is_dirty' := (is_dirty' frame \<or> is_dirty)\<rparr>;
                     s' = s\<lparr>pages' := (pages' s)[frame_id := frame']\<rparr>
                 in if pin_count' frame' = 0
                    then (case SetEvictable frame_id True (replacer' s) of
                            Inl e \<Rightarrow> Inl e
                          | Inr r \<Rightarrow> Inr (True, s'\<lparr>replacer' := r\<rparr>))
                    else Inr (True, s'))))"

definition FlushPage :: "page_id_t \<Rightarrow> BufferPoolManager \<Rightarrow> bool \<times> BufferPoolManager" where
  "FlushPage page_id s =
     (case page_table' s page_id of
        None \<Rightarrow> (False, s)
      | Some frame_id \<Rightarrow>
          (let frame = pages' s ! frame_id
           in (True, s\<lparr>disk' := schedule_write (page_id' frame) (data' frame) (disk' s)\<rparr>)))"

text \<open>
  \<open>DeletePage\<close>. \<open>DeallocatePage\<close> is a no-op on the pool's state. The page table is
  not touched: the source has no \<open>page_table_.erase\<close> here.
\<close>

definition DeletePage :: "nat \<Rightarrow> page_id_t \<Rightarrow> BufferPoolManager \<Rightarrow> error + (bool \<times> BufferPoolManager)" where
  "DeletePage page_size page_id s =
     (case page_table' s page_id of
        None \<Rightarrow> Inr (True, s)
      | Some frame_id \<Rightarrow>
          (let frame = pages' s ! frame_id
           in if pin_count' frame > 0 then Inr (False, s)
              else
                (let frame' = ResetMemory page_size
                                (frame\<lparr>is_dirty' := False, page_id' := INVALID_PAGE_ID, pin_count' := 0\<rparr>)
                 in case Remove frame_id (replacer' s) of
                      Inl e \<Rightarrow> Inl e
                    | Inr r \<Rightarrow>
                        Inr (True, s\<lparr>pages' := (pages' s)[frame_id := frame'],
                                     free_list' := free_list' s @ [frame_id],
                                     replacer' := r\<rparr>))))"

section \<open>Replacer: the state invariant and the backward K-distance\<close>

text \<open>
  The invariant of the replacer states reached through its interface while the
  timestamp counter has not wrapped around: \<open>k_\<close> is positive, the keys of the store
  are unique, every node carries its own key and the replacer's \<open>k_\<close>, and its history
  is non-empty, at most \<open>k_\<close> long and made of timestamps already handed out.
\<close>

definition replacer_inv :: "LRUKReplacer \<Rightarrow> bool" where
  "replacer_inv r \<longleftrightarrow>
     0 < replacer_k' r \<and> distinct (map fst (node_store' r)) \<and>
     list_all (\<lambda>(f, n). fid' n = f \<and> k' n = replacer_k' r \<and> history' n \<noteq> [] \<and>
                  length (history' n) \<le> replacer_k' r \<and>
                  list_all (\<lambda>t. t < current_timestamp' r) (history' n))
              (node_store' r)"

text \<open>
  The backward K-distance as the specification words it: infinite for a node with fewer
  than K recorded accesses, otherwise the current timestamp minus the oldest
  timestamp the node still holds.
\<close>

definition backward_k_distance :: "LRUKReplacer \<Rightarrow> LRUKNode \<Rightarrow> enat" where
  "backward_k_distance r n =
     (if length (history' n) < replacer_k' r then \<infinity>
      else enat (unat (current_timestamp' r - hd (history' n))))"

section \<open>Example states\<close>

text \<open>
  The replacer with \<open>K = 2\<close> after the accesses 1, 2, 1, 2, 3, every frame evictable.
\<close>

definition ex_replacer :: LRUKReplacer where
  "ex_replacer =
     \<lparr>node_store' =
        [(1, \<lparr>history' = [0, 2], k' = 2, fid' = 1, is_evictable' = True\<rparr>),
         (2, \<lparr>history' = [1, 3], k' = 2, fid' = 2, is_evictable' = True\<rparr>),
         (3, \<lparr>history' = [4], k' = 2, fid' = 3, is_evictable' = True\<rparr>)],
      current_timestamp' = 5, curr_size' = 3, replacer_size' = 7, replacer_k' = 2\<rparr>"

text \<open>
  A pool of one frame and pages of four bytes, after \<open>NewPage\<close> returned page 0, the
  client wrote the bytes \<open>0x41\<close> into it and unpinned it as dirty.
\<close>

definition ex_pool :: BufferPoolManager where
  "ex_pool =
     \<lparr>pool_size' = 1,
      pages' = [\<lparr>data' = [65, 65, 65, 65], page_id' = 0, pin_count' = 0, is_dirty' = True\<rparr>],
      page_table' = [0 \<mapsto> 0],
      free_list' = [],
      replacer' =
        \<lparr>node_store' = [(0, \<lparr>history' = [0], k' = 2, fid' = 0, is_evictable' = True\<rparr>)],
         current_timestamp' = 1, curr_size' = 1, replacer_size' = 1, replacer_k' = 2\<rparr>,
      next_page_id' = 1,
      disk' = \<lparr>disk_pages' = Map.empty, disk_log' = []\<rparr>\<rparr>"

section \<open>Copy-on-write trie (src/primer/trie.cpp)\<close>

text \<open>
  A trie node has a map from characters to children and, when it is a
  \<open>TrieNodeWithValue<T>\<close>, a value; \<open>is_value_node_\<close> is \<open>value' n \<noteq> None\<close>. The
  values of all C++ types live in one type \<open>'v\<close>, and \<open>type_of\<close> gives the C++ type of
  a value, so that the \<open>dynamic_cast\<close> of \<open>Get<T>\<close> is the test \<open>type_of v = T\<close>.
  A trie is its root pointer, \<open>None\<close> for \<open>nullptr\<close>. Nodes are immutable and shared in
  the C++; sharing is not observable, so the trie is a tree here.
\<close>

datatype 'v TrieNode = TrieNode (children': "(char, 'v TrieNode) fmap") (value': "'v option")

type_synonym 'v Trie = "'v TrieNode option"

text \<open>The walk of \<open>Get\<close> from a node along the key: \<open>None\<close> when a child is missing.\<close>

fun walk :: "'v TrieNode \<Rightarrow> string \<Rightarrow> 'v TrieNode option" where
  "walk node [] = Some node"
| "walk node (k # key) =
     (case fmlookup (children' node) k of
        None \<Rightarrow> None
      | Some child \<Rightarrow> walk child key)"

definition Get :: "('v \<Rightarrow> 'ty) \<Rightarrow> 'ty \<Rightarrow> 'v Trie \<Rightarrow> string \<Rightarrow> 'v option" where
  "Get type_of T root' key =
     (case root' of
        None \<Rightarrow> None
      | Some r \<Rightarrow>
          (case walk r key of
             None \<Rightarrow> None
           | Some node \<Rightarrow>
               (case value' node of
                  None \<Rightarrow> None
                | Some v \<Rightarrow> if type_of v = T then Some v else None)))"

text \<open>
  The loop of \<open>Put\<close>. \<open>node\<close> is the fresh copy the loop is standing on; for the
  character \<open>k\<close> it builds \<open>new_node\<close> (a value node over the old child's children at
  the last character, a clone of the old child or an empty node before), stores it
  under \<open>k\<close> and goes on from it. The result is \<open>node\<close> after all these updates.
\<close>

fun put_loop :: "'v TrieNode \<Rightarrow> string \<Rightarrow> 'v \<Rightarrow> 'v TrieNode" where
  "put_loop node [] v = node"
| "put_loop node [k] v =
     (let new_node = (case fmlookup (children' node) k of
                        None \<Rightarrow> TrieNode fmempty (Some v)
                      | Some child \<Rightarrow> TrieNode (children' child) (Some v))
      in TrieNode (fmupd k new_node (children' node)) (value' node))"
| "put_loop node (k # k2 # key) v =
     (let new_node = (case fmlookup (children' node) k of
                        None \<Rightarrow> TrieNode fmempty None
                      | Some child \<Rightarrow> child)
      in TrieNode (fmupd k (put_loop new_node (k2 # key) v) (children' node)) (value' node))"

definition Put :: "'v Trie \<Rightarrow> string \<Rightarrow> 'v \<Rightarrow> 'v Trie" where
  "Put root' key v =
     (if key = [] then
        (case root' of
           None \<Rightarrow> Some (TrieNode fmempty (Some v))
         | Some r \<Rightarrow> Some (TrieNode (children' r) (Some v)))
      else
        (case root' of
           None \<Rightarrow> Some (put_loop (TrieNode fmempty None) key v)
         | Some r \<Rightarrow> Some (put_loop r key v)))"

text \<open>
  \<open>Trie::remove(cur, key, key_index)\<close>; the key argument here is the rest of the key
  from \<open>key_index\<close> on. It is only ever called on a non-empty rest.
\<close>

fun remove :: "'v TrieNode \<Rightarrow> string \<Rightarrow> bool \<times> 'v TrieNode option" where
  "remove cur (k # rest) =
     (case fmlookup (children' cur) k of
        None \<Rightarrow> (False, None)
      | Some child \<Rightarrow>
          (let (do_remove, new_child) =
                 (if rest = [] then
                    (value' child \<noteq> None,
                     if value' child \<noteq> None \<and> children' child \<noteq> fmempty
                     then Some (TrieNode (children' child) None) else None)
                  else remove child rest)
           in if do_remove then
                (case new_child of
                   None \<Rightarrow>
                     if fcard (fmdom (children' cur)) > 1 \<or> value' cur \<noteq> None
                     then (True, Some (TrieNode (fmdrop k (children' cur)) (value' cur)))
                     else (True, None)
                 | Some c \<Rightarrow> (True, Some (TrieNode (fmupd k c (children' cur)) (value' cur))))
              else (False, None)))"

definition Trie_Remove :: "'v Trie \<Rightarrow> string \<Rightarrow> 'v Trie" where
  "Trie_Remove root' key =
     (case root' of
        None \<Rightarrow> None
      | Some r \<Rightarrow>
          if key = [] then
            (if value' r \<noteq> None then Some (TrieNode (children' r) None) else root')
          else
            (case remove r key of
               (True, new_node) \<Rightarrow> new_node
             | (False, _) \<Rightarrow> root'))"

text \<open>The value stored at the end of a key's path below a node, if any.\<close>

definition lookup_val :: "'v TrieNode \<Rightarrow> string \<Rightarrow> 'v option" where
  "lookup_val n key = (case walk n key of None \<Rightarrow> None | Some m \<Rightarrow> value' m)"

section \<open>Extendible hash table pages (src/storage/page)\<close>

subsection \<open>Bucket page (extendible_htable_bucket_page.cpp)\<close>

text \<open>
  A bucket page holds \<open>size_\<close>, \<open>max_size_\<close> and the array of pairs. Only the first
  \<open>size_\<close> slots of the array are ever read, so the page is modelled by the list of
  these entries: \<open>size_\<close> is the length of \<open>array'\<close>, and a zeroed page is the bucket
  with \<open>max_size_ = 0\<close> and no entry. The comparator returns an integer, zero for
  equal keys, and is called as \<open>cmp(key, array_[i].first)\<close>.
\<close>

record ('k, 'v) BucketPage =
  max_size' :: nat
  array' :: "('k \<times> 'v) list"

definition bucket_Init :: "nat \<Rightarrow> ('k, 'v) BucketPage \<Rightarrow> ('k, 'v) BucketPage" where
  "bucket_Init max_size b = b\<lparr>max_size' := max_size\<rparr>"

definition bucket_Size :: "('k, 'v) BucketPage \<Rightarrow> nat" where
  "bucket_Size b = length (array' b)"

definition IsFull :: "('k, 'v) BucketPage \<Rightarrow> bool" where
  "IsFull b \<longleftrightarrow> bucket_Size b = max_size' b"

text \<open>The index of the first entry whose key compares equal, as the scans find it.\<close>

fun find_key :: "('k \<Rightarrow> 'k \<Rightarrow> int) \<Rightarrow> 'k \<Rightarrow> ('k \<times> 'v) list \<Rightarrow> nat option" where
  "find_key cmp key [] = None"
| "find_key cmp key (e # es) =
     (if cmp key (fst e) = 0 then Some 0
      else (case find_key cmp key es of None \<Rightarrow> None | Some i \<Rightarrow> Some (Suc i)))"

definition Lookup :: "'k \<Rightarrow> ('k \<Rightarrow> 'k \<Rightarrow> int) \<Rightarrow> ('k, 'v) BucketPage \<Rightarrow> 'v option" where
  "Lookup key cmp b =
     (case find_key cmp key (array' b) of
        None \<Rightarrow> None
      | Some i \<Rightarrow> Some (snd (array' b ! i)))"

definition bucket_Insert ::
  "'k \<Rightarrow> 'v \<Rightarrow> ('k \<Rightarrow> 'k \<Rightarrow> int) \<Rightarrow> ('k, 'v) BucketPage \<Rightarrow> bool \<times> ('k, 'v) BucketPage" where
  "bucket_Insert key val cmp b =
     (if bucket_Size b = max_size' b then (False, b)
      else (case find_key cmp key (array' b) of
              Some i \<Rightarrow> (False, b)
            | None \<Rightarrow> (True, b\<lparr>array' := array' b @ [(key, val)]\<rparr>)))"

text \<open>
  \<open>RemoveAt\<close>: nothing out of range; otherwise \<open>size_\<close> goes down by one and the last
  entry moves into the hole unless the hole was the last slot.
\<close>

definition RemoveAt :: "nat \<Rightarrow> ('k, 'v) BucketPage \<Rightarrow> ('k, 'v) BucketPage" where
  "RemoveAt bucket_idx b =
     (if bucket_idx \<ge> bucket_Size b then b
      else (let n = bucket_Size b - 1
            in if n > bucket_idx
               then b\<lparr>array' := (take n (array' b))[bucket_idx := array' b ! n]\<rparr>
               else b\<lparr>array' := take n (array' b)\<rparr>))"

definition bucket_Remove ::
  "'k \<Rightarrow> ('k \<Rightarrow> 'k \<Rightarrow> int) \<Rightarrow> ('k, 'v) BucketPage \<Rightarrow> bool \<times> ('k, 'v) BucketPage" where
  "bucket_Remove key cmp b =
     (case find_key cmp key (array' b) of
        None \<Rightarrow> (False, b)
      | Some i \<Rightarrow> (True, RemoveAt i b))"

text \<open>
  Modelled from the spec: \<open>MergeBucket\<close> is called by \<open>Remove\<close> but defined in none of
  the sources. The spec's merge predicate, as far as a bucket can decide it: the
  current bucket can absorb the partner's entries without exceeding \<open>max_size\<close>. It
  then takes them over, one \<open>Insert\<close> each; otherwise it is left as it is.
\<close>

definition MergeBucket ::
  "('k, 'v) BucketPage \<Rightarrow> ('k \<Rightarrow> 'k \<Rightarrow> int) \<Rightarrow> ('k, 'v) BucketPage \<Rightarrow> bool \<times> ('k, 'v) BucketPage" where
  "MergeBucket other cmp b =
     (if bucket_Size b + bucket_Size other \<le> max_size' b
      then (True, fold (\<lambda>e b. snd (bucket_Insert (fst e) (snd e) cmp b)) (array' other) b)
      else (False, b))"

subsection \<open>Directory page (extendible_htable_directory_page.cpp)\<close>

text \<open>
  The two arrays of a directory page have a fixed number of slots (a constant of a
  header that is not among the sources), of which only the first \<open>Size()\<close> are in use;
  they are functions from the slot index. A local depth is a \<open>uint8_t\<close>: incrementing
  and decrementing wrap around modulo 256. The global depth and the indices are
  32-bit; they stay far below \<open>2^32\<close> as long as the depths are below 31, which the
  well-formedness predicate below demands.
\<close>

record DirectoryPage =
  max_depth' :: nat
  global_depth' :: nat
  local_depths' :: "nat \<Rightarrow> nat"
  bucket_page_ids' :: "nat \<Rightarrow> page_id_t"

definition dir_Init :: "nat \<Rightarrow> DirectoryPage \<Rightarrow> DirectoryPage" where
  "dir_Init max_depth d = d\<lparr>max_depth' := max_depth\<rparr>"

definition dir_Size :: "DirectoryPage \<Rightarrow> nat" where
  "dir_Size d = push_bit (global_depth' d) 1"

definition HashToBucketIndex :: "DirectoryPage \<Rightarrow> nat \<Rightarrow> nat" where
  "HashToBucketIndex d hash = hash AND (dir_Size d - 1)"

text \<open>
  The accessors assert \<open>bucket_idx < Size()\<close>. Where the index comes from
  \<open>HashToBucketIndex\<close> or from a loop bounded by \<open>Size()\<close> the assertion cannot fail and
  the plain accessor is used; elsewhere the caller's model checks it first.
\<close>

definition GetBucketPageId :: "DirectoryPage \<Rightarrow> nat \<Rightarrow> page_id_t" where
  "GetBucketPageId d bucket_idx = bucket_page_ids' d bucket_idx"

definition SetBucketPageId :: "nat \<Rightarrow> page_id_t \<Rightarrow> DirectoryPage \<Rightarrow> DirectoryPage" where
  "SetBucketPageId bucket_idx bucket_page_id d =
     d\<lparr>bucket_page_ids' := (bucket_page_ids' d)(bucket_idx := bucket_page_id)\<rparr>"

definition GetGlobalDepth :: "DirectoryPage \<Rightarrow> nat" where
  "GetGlobalDepth d = global_depth' d"

definition GetLocalDepth :: "DirectoryPage \<Rightarrow> nat \<Rightarrow> nat" where
  "GetLocalDepth d bucket_idx = local_depths' d bucket_idx"

definition IncrLocalDepth :: "nat \<Rightarrow> DirectoryPage \<Rightarrow> DirectoryPage" where
  "IncrLocalDepth bucket_idx d =
     d\<lparr>local_depths' := (local_depths' d)(bucket_idx := (local_depths' d bucket_idx + 1) mod 256)\<rparr>"

definition DecrLocalDepth :: "nat \<Rightarrow> DirectoryPage \<Rightarrow> DirectoryPage" where
  "DecrLocalDepth bucket_idx d =
     d\<lparr>local_depths' := (local_depths' d)(bucket_idx := (local_depths' d bucket_idx + 255) mod 256)\<rparr>"

text \<open>
  \<open>IncrGlobalDepth\<close>: the depth goes up, then the loop copies slot \<open>i\<close> to slot
  \<open>i + msb\<close> for every \<open>i\<close> below \<open>msb = Size() >> 1\<close>.
\<close>

definition IncrGlobalDepth :: "DirectoryPage \<Rightarrow> DirectoryPage" where
  "IncrGlobalDepth d =
     (let d1 = d\<lparr>global_depth' := global_depth' d + 1\<rparr>;
          msb = drop_bit 1 (dir_Size d1)
      in fold (\<lambda>i d. d\<lparr>local_depths' := (local_depths' d)(i + msb := local_depths' d i),
                        bucket_page_ids' := (bucket_page_ids' d)(i + msb := bucket_page_ids' d i)\<rparr>)
              [0 ..< msb] d1)"

definition DecrGlobalDepth :: "DirectoryPage \<Rightarrow> DirectoryPage" where
  "DecrGlobalDepth d = d\<lparr>global_depth' := global_depth' d - 1\<rparr>"

definition CanShrink :: "DirectoryPage \<Rightarrow> bool" where
  "CanShrink d \<longleftrightarrow> list_all (\<lambda>i. local_depths' d i \<noteq> global_depth' d) [0 ..< dir_Size d]"

text \<open>
  Modelled from the spec: \<open>CanExpand\<close> and \<open>GetLocalDepthMask\<close> are called by the hash
  table but defined in none of the sources. The directory can grow unless its global
  depth has reached \<open>max_depth\<close>; the mask selects the low \<open>local_depth\<close> bits.
\<close>

definition CanExpand :: "DirectoryPage \<Rightarrow> bool" where
  "CanExpand d \<longleftrightarrow> global_depth' d < max_depth' d"

definition GetLocalDepthMask :: "DirectoryPage \<Rightarrow> nat \<Rightarrow> nat" where
  "GetLocalDepthMask d bucket_idx = push_bit (local_depths' d bucket_idx) 1 - 1"

subsection \<open>Header page\<close>

text \<open>
  Modelled from the spec: the header page's functions are in none of the sources. It
  has a fixed \<open>max_depth\<close> and an array of directory page ids, all \<open>INVALID\<close> after
  \<open>Init\<close>; a hash is routed to a directory by the top \<open>max_depth\<close> bits of the 32-bit
  hash.
\<close>

record HeaderPage =
  hp_max_depth' :: nat
  directory_page_ids' :: "nat \<Rightarrow> page_id_t"

definition header_Init :: "nat \<Rightarrow> HeaderPage \<Rightarrow> HeaderPage" where
  "header_Init max_depth h =
     h\<lparr>hp_max_depth' := max_depth, directory_page_ids' := (\<lambda>_. INVALID_PAGE_ID)\<rparr>"

definition HashToDirectoryIndex :: "HeaderPage \<Rightarrow> nat \<Rightarrow> nat" where
  "HashToDirectoryIndex h hash = drop_bit (32 - hp_max_depth' h) hash"

definition GetDirectoryPageId :: "HeaderPage \<Rightarrow> nat \<Rightarrow> page_id_t" where
  "GetDirectoryPageId h directory_idx = directory_page_ids' h directory_idx"

definition SetDirectoryPageId :: "nat \<Rightarrow> page_id_t \<Rightarrow> HeaderPage \<Rightarrow> HeaderPage" where
  "SetDirectoryPageId directory_idx directory_page_id h =
     h\<lparr>directory_page_ids' := (directory_page_ids' h)(directory_idx := directory_page_id)\<rparr>"

section \<open>Disk extendible hash table (src/container/disk/hash/disk_extendible_hash_table.cpp)\<close>

subsection \<open>The pages behind the buffer pool\<close>

text \<open>
  The table reaches its pages only through the buffer pool it is given:
  \<open>NewPageGuarded\<close>, \<open>FetchPageRead\<close>, \<open>FetchPageWrite\<close> and \<open>DeletePage\<close>. Here the pool
  is the page store it implements as long as it has a free frame for every page that
  is created or fetched, so that no frame is ever used for a second page: a page
  keeps what was last written to it; a new page has the next page id and is zeroed
  (its frame comes from the free list); \<open>DeletePage\<close> refuses a pinned page and
  otherwise leaves a zeroed page that can still be fetched (see \<open>DeletePage\<close> above:
  the frame is reset and the page table entry stays). The table's own reader-writer
  latch and the page latches are not modelled: every operation runs alone.

  A page is \<open>Blank\<close> (all bytes zero) or holds what was written to it through one of
  the three page classes. A zeroed page read through any class is the page whose
  fields are all zero. The three classes are declared in headers that are not among
  the sources, so what a page written through one class shows when it is read
  through another is not known here: such a read ends the operation with
  \<open>PageTypeMismatch\<close>, which says that the model cannot follow the code any further,
  not that the code stops.
\<close>

datatype ('k, 'v) page =
  Blank
| HeaderP HeaderPage
| DirectoryP DirectoryPage
| BucketP "('k, 'v) BucketPage"

record ('k, 'v) PageStore =
  store_pages' :: "page_id_t \<Rightarrow> ('k, 'v) page"
  store_next_page_id' :: page_id_t

text \<open>
  The table: the pool it points to (\<open>bpm_\<close>, the two fields of the page store), and
  its own data members.
\<close>

record ('k, 'v) DiskExtendibleHashTable = "('k, 'v) PageStore" +
  cmp' :: "'k \<Rightarrow> 'k \<Rightarrow> int"
  hash_fn' :: "'k \<Rightarrow> 32 word"
  header_max_depth' :: nat
  directory_max_depth' :: nat
  bucket_max_size' :: nat
  header_page_id' :: page_id_t

definition zero_header :: HeaderPage where
  "zero_header = \<lparr>hp_max_depth' = 0, directory_page_ids' = (\<lambda>_. 0)\<rparr>"

definition zero_directory :: DirectoryPage where
  "zero_directory =
     \<lparr>max_depth' = 0, global_depth' = 0, local_depths' = (\<lambda>_. 0), bucket_page_ids' = (\<lambda>_. 0)\<rparr>"

definition zero_bucket :: "('k, 'v) BucketPage" where
  "zero_bucket = \<lparr>max_size' = 0, array' = []\<rparr>"

definition as_header :: "('k, 'v) page \<Rightarrow> error + HeaderPage" where
  "as_header p = (case p of Blank \<Rightarrow> Inr zero_header | HeaderP h \<Rightarrow> Inr h | _ \<Rightarrow> Inl PageTypeMismatch)"

definition as_directory :: "('k, 'v) page \<Rightarrow> error + DirectoryPage" where
  "as_directory p =
     (case p of Blank \<Rightarrow> Inr zero_directory | DirectoryP d \<Rightarrow> Inr d | _ \<Rightarrow> Inl PageTypeMismatch)"

definition as_bucket :: "('k, 'v) page \<Rightarrow> error + ('k, 'v) BucketPage" where
  "as_bucket p = (case p of Blank \<Rightarrow> Inr zero_bucket | BucketP b \<Rightarrow> Inr b | _ \<Rightarrow> Inl PageTypeMismatch)"

text \<open>
  The operations of the store work on the pool alone and on a table, which holds the
  pool's fields. \<open>fetch\<close> is what a fetched page shows, \<open>write_page\<close> what a guard's
  \<open>AsMut\<close> pointer is used for.
\<close>

definition fetch :: "('k, 'v, 'z) PageStore_scheme \<Rightarrow> page_id_t \<Rightarrow> ('k, 'v) page" where
  "fetch t page_id = store_pages' t page_id"

definition write_page ::
  "page_id_t \<Rightarrow> ('k, 'v) page \<Rightarrow> ('k, 'v, 'z) PageStore_scheme \<Rightarrow> ('k, 'v, 'z) PageStore_scheme" where
  "write_page page_id p t = t\<lparr>store_pages' := (store_pages' t)(page_id := p)\<rparr>"

text \<open>\<open>NewPageGuarded\<close>: the new page id, and the store in which that page is zeroed.\<close>

definition NewPageGuarded ::
  "('k, 'v, 'z) PageStore_scheme \<Rightarrow> page_id_t \<times> ('k, 'v, 'z) PageStore_scheme" where
  "NewPageGuarded t =
     (store_next_page_id' t,
      t\<lparr>store_pages' := (store_pages' t)(store_next_page_id' t := Blank),
        store_next_page_id' := store_next_page_id' t + 1\<rparr>)"

text \<open>
  \<open>DeletePage\<close> returns \<open>false\<close> and does nothing when the page is pinned. The pages
  that are pinned when the table calls it are those whose guards the running
  operation holds; they are the first argument.
\<close>

definition store_DeletePage ::
  "page_id_t list \<Rightarrow> page_id_t \<Rightarrow> ('k, 'v, 'z) PageStore_scheme \<Rightarrow> bool \<times> ('k, 'v, 'z) PageStore_scheme" where
  "store_DeletePage pinned page_id t =
     (if page_id \<in> set pinned then (False, t) else (True, write_page page_id Blank t))"

text \<open>A pool that has handed out no page yet.\<close>

definition new_PageStore :: "('k, 'v) PageStore" where
  "new_PageStore = \<lparr>store_pages' = (\<lambda>_. Blank), store_next_page_id' = 0\<rparr>"

text \<open>
  The constructor takes the pool, which may hold pages already. It takes a new page
  from it for the header and initialises it; \<open>AsMut\<close> on the new page shows the zeroed
  header.
\<close>

definition new_DiskExtendibleHashTable ::
  "('k, 'v) PageStore \<Rightarrow> ('k \<Rightarrow> 'k \<Rightarrow> int) \<Rightarrow> ('k \<Rightarrow> 32 word) \<Rightarrow> nat \<Rightarrow> nat \<Rightarrow> nat \<Rightarrow>
     ('k, 'v) DiskExtendibleHashTable" where
  "new_DiskExtendibleHashTable bpm cmp hash_fn header_max_depth directory_max_depth bucket_max_size =
     (let (new_page_id, bpm1) = NewPageGuarded bpm
      in write_page new_page_id (HeaderP (header_Init header_max_depth zero_header))
           \<lparr>store_pages' = store_pages' bpm1,
            store_next_page_id' = store_next_page_id' bpm1,
            cmp' = cmp, hash_fn' = hash_fn,
            header_max_depth' = header_max_depth,
            directory_max_depth' = directory_max_depth,
            bucket_max_size' = bucket_max_size,
            header_page_id' = new_page_id\<rparr>)"

definition Hash :: "('k, 'v) DiskExtendibleHashTable \<Rightarrow> 'k \<Rightarrow> nat" where
  "Hash t key = unat (hash_fn' t key)"

subsection \<open>GetValue\<close>

text \<open>
  \<open>GetValue\<close> returns its boolean and the result vector, which it is given and appends
  to.
\<close>

definition GetValue ::
  "'k \<Rightarrow> 'v list \<Rightarrow> ('k, 'v) DiskExtendibleHashTable \<Rightarrow> error + bool \<times> 'v list" where
  "GetValue key result t =
     (let hash = Hash t key
      in case as_header (fetch t (header_page_id' t)) of
           Inl e \<Rightarrow> Inl e
         | Inr header \<Rightarrow>
             (let dir_idx = HashToDirectoryIndex header hash;
                  dir_page_id = GetDirectoryPageId header dir_idx
              in if dir_page_id = INVALID_PAGE_ID then Inr (False, result)
                 else
                   (case as_directory (fetch t dir_page_id) of
                      Inl e \<Rightarrow> Inl e
                    | Inr dir \<Rightarrow>
                        (let bucket_idx = HashToBucketIndex dir hash;
                             bucket_page_id = GetBucketPageId dir bucket_idx
                         in if bucket_page_id = INVALID_PAGE_ID then Inr (False, result)
                            else
                              (case as_bucket (fetch t bucket_page_id) of
                                 Inl e \<Rightarrow> Inl e
                               | Inr bucket \<Rightarrow>
                                   (case Lookup key (cmp' t) bucket of
                                      None \<Rightarrow> Inr (False, result)
                                    | Some v \<Rightarrow> Inr (True, result @ [v])))))))"

subsection \<open>Insert\<close>

text \<open>
  Step 1 of \<open>InsertToDirectory\<close>: the bucket of the slot, a new one when the slot is
  \<open>INVALID\<close>. The result is the bucket's page id, and the table in which a new bucket
  is installed in the directory and initialised (\<open>AsMut\<close> on the new page shows the
  zeroed bucket).
\<close>

definition get_bucket ::
  "page_id_t \<Rightarrow> DirectoryPage \<Rightarrow> nat \<Rightarrow> ('k, 'v) DiskExtendibleHashTable \<Rightarrow>
     error + page_id_t \<times> ('k, 'v) DiskExtendibleHashTable" where
  "get_bucket dir_page_id dir bucket_idx t =
     (let bucket_page_id = GetBucketPageId dir bucket_idx
      in if bucket_page_id = INVALID_PAGE_ID then
           (if dir_Size dir = 1 \<and> bucket_idx = 0 then
              (let (new_page_id, t1) = NewPageGuarded t;
                   t2 = write_page dir_page_id (DirectoryP (SetBucketPageId bucket_idx new_page_id dir)) t1
               in Inr (new_page_id,
                       write_page new_page_id (BucketP (bucket_Init (bucket_max_size' t) zero_bucket)) t2))
            else Inl AssertionFailure)
         else Inr (bucket_page_id, t))"

text \<open>
  The redistribution loop of step 4, from its first index down to \<open>0\<close>; the first
  argument is \<open>i + 1\<close>. Every index the loop reaches is below \<open>size_\<close> once the first
  one is.
\<close>

fun redistribute ::
  "nat \<Rightarrow> ('k \<Rightarrow> nat) \<Rightarrow> nat \<Rightarrow> ('k \<Rightarrow> 'k \<Rightarrow> int) \<Rightarrow>
     ('k, 'v) BucketPage \<times> ('k, 'v) BucketPage \<Rightarrow> ('k, 'v) BucketPage \<times> ('k, 'v) BucketPage" where
  "redistribute 0 hash new_mask cmp (bucket, new_bucket) = (bucket, new_bucket)"
| "redistribute (Suc i) hash new_mask cmp (bucket, new_bucket) =
     (let e = array' bucket ! i;
          h = hash (fst e)
      in if h AND new_mask \<noteq> 0
         then redistribute i hash new_mask cmp
                (RemoveAt i bucket, snd (bucket_Insert (fst e) (snd e) cmp new_bucket))
         else redistribute i hash new_mask cmp (bucket, new_bucket))"

text \<open>
  The directory loop of step 5: \<open>idx\<close> runs from its start in steps of
  \<open>step = 1 << depth\<close> while it is below \<open>dir_size\<close>.
\<close>

function split_loop :: "nat \<Rightarrow> nat \<Rightarrow> nat \<Rightarrow> page_id_t \<Rightarrow> DirectoryPage \<Rightarrow> DirectoryPage" where
  "split_loop idx depth dir_size new_bucket_page_id dir =
     (if idx < dir_size then
        (let step = push_bit depth (1::nat);
             dir1 = IncrLocalDepth idx dir;
             dir2 = (if idx AND step \<noteq> 0 then SetBucketPageId idx new_bucket_page_id dir1 else dir1)
         in split_loop (idx + step) depth dir_size new_bucket_page_id dir2)
      else dir)"
  by pat_completeness auto
termination
  by (relation "measure (\<lambda>(idx, depth, dir_size, new_bucket_page_id, dir). dir_size - idx)")
     (auto simp: push_bit_eq_mult intro!: diff_less_mono2)

declare split_loop.simps [simp del]

text \<open>
  Steps 3 to 5 of \<open>InsertToDirectory\<close> for a full bucket: \<open>None\<close> when the directory
  cannot grow (the C++ returns \<open>false\<close>), otherwise the table after the directory has
  grown if it had to, the new bucket page has been allocated and initialised, the
  entries have been redistributed and the directory slots updated. \<open>IncrGlobalDepth\<close>
  asserts what \<open>CanExpand\<close> has just found true. The first index of the redistribution
  loop is \<open>bucket->Size() - 1\<close>, computed in \<open>uint32_t\<close> before it is widened to
  \<open>int64_t\<close>: for a full bucket without entries (\<open>max_size_ = 0\<close>) it wraps around to
  \<open>4294967295\<close>, and the loop starts by reading the array far outside the page.
\<close>

definition split_bucket ::
  "page_id_t \<Rightarrow> nat \<Rightarrow> nat \<Rightarrow> page_id_t \<Rightarrow> DirectoryPage \<Rightarrow> ('k, 'v) BucketPage \<Rightarrow>
     ('k, 'v) DiskExtendibleHashTable \<Rightarrow> (error + ('k, 'v) DiskExtendibleHashTable) option" where
  "split_bucket dir_page_id hash bucket_idx bucket_page_id dir0 bucket t =
     (if GetLocalDepth dir0 bucket_idx = GetGlobalDepth dir0 \<and> \<not> CanExpand dir0 then None
      else
        (let dir = (if GetLocalDepth dir0 bucket_idx = GetGlobalDepth dir0
                    then IncrGlobalDepth dir0 else dir0);
             (new_bucket_page_id, t1) = NewPageGuarded t;
             new_bucket = bucket_Init (bucket_max_size' t) zero_bucket;
             depth = GetLocalDepth dir bucket_idx;
             new_mask = push_bit depth (1::nat);
             first = (bucket_Size bucket + 4294967295) mod 4294967296
         in if bucket_Size bucket \<le> first then Some (Inl OutOfBounds)
            else
              (let (bucket', new_bucket') =
                      redistribute (first + 1) (Hash t) new_mask (cmp' t) (bucket, new_bucket);
                   dir_size = dir_Size dir;
                   dir' = split_loop (hash AND GetLocalDepthMask dir bucket_idx) depth dir_size
                            new_bucket_page_id dir
               in Some (Inr (write_page dir_page_id (DirectoryP dir')
                              (write_page new_bucket_page_id (BucketP new_bucket')
                                (write_page bucket_page_id (BucketP bucket') t1)))))))"

text \<open>
  \<open>InsertToDirectory\<close> retries after every split; nothing in the code bounds the
  number of retries, so the result is \<open>None\<close> when it does not return.
\<close>

partial_function (option) InsertToDirectory ::
  "page_id_t \<Rightarrow> nat \<Rightarrow> 'k \<Rightarrow> 'v \<Rightarrow> ('k, 'v) DiskExtendibleHashTable \<Rightarrow>
     (error + bool \<times> ('k, 'v) DiskExtendibleHashTable) option" where
  "InsertToDirectory dir_page_id hash key val t =
     (case as_directory (fetch t dir_page_id) of
        Inl e \<Rightarrow> Some (Inl e)
      | Inr dir0 \<Rightarrow>
          (let bucket_idx = HashToBucketIndex dir0 hash
           in case get_bucket dir_page_id dir0 bucket_idx t of
                Inl e \<Rightarrow> Some (Inl e)
              | Inr (bucket_page_id, t1) \<Rightarrow>
                  (case as_directory (fetch t1 dir_page_id) of
                     Inl e \<Rightarrow> Some (Inl e)
                   | Inr dir \<Rightarrow>
                       (case as_bucket (fetch t1 bucket_page_id) of
                          Inl e \<Rightarrow> Some (Inl e)
                        | Inr bucket \<Rightarrow>
                            if \<not> IsFull bucket then
                              (let (ok, bucket') = bucket_Insert key val (cmp' t1) bucket
                               in Some (Inr (ok, write_page bucket_page_id (BucketP bucket') t1)))
                            else
                              (case split_bucket dir_page_id hash bucket_idx bucket_page_id dir bucket t1 of
                                 None \<Rightarrow> Some (Inr (False, t1))
                               | Some (Inl e) \<Rightarrow> Some (Inl e)
                               | Some (Inr t2) \<Rightarrow> InsertToDirectory dir_page_id hash key val t2)))))"

declare InsertToDirectory.simps [code]

definition Insert ::
  "'k \<Rightarrow> 'v \<Rightarrow> ('k, 'v) DiskExtendibleHashTable \<Rightarrow>
     (error + bool \<times> ('k, 'v) DiskExtendibleHashTable) option" where
  "Insert key val t =
     (let hash = Hash t key
      in case as_header (fetch t (header_page_id' t)) of
           Inl e \<Rightarrow> Some (Inl e)
         | Inr header \<Rightarrow>
             (let dir_idx = HashToDirectoryIndex header hash;
                  dir_page_id = GetDirectoryPageId header dir_idx
              in if dir_page_id = INVALID_PAGE_ID then
                   (let (new_page_id, t1) = NewPageGuarded t;
                        t2 = write_page (header_page_id' t)
                               (HeaderP (SetDirectoryPageId dir_idx new_page_id header)) t1
                    in InsertToDirectory new_page_id hash key val
                         (write_page new_page_id
                            (DirectoryP (dir_Init (directory_max_depth' t) zero_directory)) t2))
                 else InsertToDirectory dir_page_id hash key val t))"

subsection \<open>Remove\<close>

text \<open>
  The directory loop of a merge: \<open>idx\<close> runs from its start in steps of
  \<open>step = 1 << depth\<close> (the merge mask) while it is below \<open>dir_size\<close>.
\<close>

function merge_dir_loop :: "nat \<Rightarrow> nat \<Rightarrow> nat \<Rightarrow> page_id_t \<Rightarrow> DirectoryPage \<Rightarrow> DirectoryPage" where
  "merge_dir_loop idx depth dir_size bucket_page_id dir =
     (if idx < dir_size then
        merge_dir_loop (idx + push_bit depth (1::nat)) depth dir_size bucket_page_id
          (SetBucketPageId idx bucket_page_id (DecrLocalDepth idx dir))
      else dir)"
  by pat_completeness auto
termination
  by (relation "measure (\<lambda>(idx, depth, dir_size, bucket_page_id, dir). dir_size - idx)")
     (auto simp: push_bit_eq_mult intro!: diff_less_mono2)

declare merge_dir_loop.simps [simp del]

text \<open>
  One round of the merge loop (step 5 of \<open>Remove\<close>) up to its decision: \<open>None\<close> when the
  loop breaks, otherwise the merge partner's page id and the bucket that has
  absorbed the partner's entries.
\<close>

definition merge_test ::
  "DirectoryPage \<Rightarrow> nat \<Rightarrow> ('k, 'v) BucketPage \<Rightarrow> ('k, 'v) DiskExtendibleHashTable \<Rightarrow>
     error + (page_id_t \<times> ('k, 'v) BucketPage) option" where
  "merge_test dir bucket_idx bucket t =
     (let bucket_depth = GetLocalDepth dir bucket_idx
      in if bucket_depth = 0 then Inr None
         else
           (let merge_mask = push_bit (bucket_depth - 1) (1::nat);
                merge_bucket_idx = bucket_idx XOR merge_mask
            in if merge_bucket_idx < dir_Size dir then
                 (let merge_bucket_page_id = GetBucketPageId dir merge_bucket_idx
                  in case as_bucket (fetch t merge_bucket_page_id) of
                       Inl e \<Rightarrow> Inl e
                     | Inr merge_bucket \<Rightarrow>
                         (case MergeBucket merge_bucket (cmp' t) bucket of
                            (False, _) \<Rightarrow> Inr None
                          | (True, bucket') \<Rightarrow> Inr (Some (merge_bucket_page_id, bucket'))))
               else Inl AssertionFailure))"

text \<open>
  The merge loop. Each round that merges writes the grown bucket, deletes the
  partner's page and updates the directory. The guards of the directory page and of
  the bucket page are held all along, the partner's guard is dropped before its page
  is deleted; the deletion is asserted to succeed.
\<close>

partial_function (option) merge_loop ::
  "page_id_t \<Rightarrow> nat \<Rightarrow> page_id_t \<Rightarrow> nat \<Rightarrow> ('k, 'v) DiskExtendibleHashTable \<Rightarrow>
     (error + ('k, 'v) DiskExtendibleHashTable) option" where
  "merge_loop dir_page_id bucket_idx bucket_page_id hash t =
     (case as_directory (fetch t dir_page_id) of
        Inl e \<Rightarrow> Some (Inl e)
      | Inr dir \<Rightarrow>
          (case as_bucket (fetch t bucket_page_id) of
             Inl e \<Rightarrow> Some (Inl e)
           | Inr bucket \<Rightarrow>
               (case merge_test dir bucket_idx bucket t of
                  Inl e \<Rightarrow> Some (Inl e)
                | Inr None \<Rightarrow> Some (Inr t)
                | Inr (Some (merge_bucket_page_id, bucket')) \<Rightarrow>
                    (let (deleted, t2) =
                            store_DeletePage [dir_page_id, bucket_page_id] merge_bucket_page_id
                              (write_page bucket_page_id (BucketP bucket') t)
                     in if deleted then
                          (let dir_size = dir_Size dir;
                               dir' = merge_dir_loop (hash AND GetLocalDepthMask dir bucket_idx)
                                        (GetLocalDepth dir bucket_idx - 1) dir_size bucket_page_id dir
                           in merge_loop dir_page_id bucket_idx bucket_page_id hash
                                (write_page dir_page_id (DirectoryP dir') t2))
                        else Some (Inl AssertionFailure)))))"

declare merge_loop.simps [code]

text \<open>
  The shrink loop (step 6 of \<open>Remove\<close>). \<open>DecrGlobalDepth\<close> asserts that the global depth
  is positive.
\<close>

function shrink_loop :: "DirectoryPage \<Rightarrow> error + DirectoryPage" where
  "shrink_loop dir =
     (if CanShrink dir then
        (if global_depth' dir = 0 then Inl AssertionFailure
         else shrink_loop (DecrGlobalDepth dir))
      else Inr dir)"
  by pat_completeness auto
termination
  by (relation "measure global_depth'") (auto simp: DecrGlobalDepth_def)

declare shrink_loop.simps [simp del]

definition ht_Remove ::
  "'k \<Rightarrow> ('k, 'v) DiskExtendibleHashTable \<Rightarrow>
     (error + bool \<times> ('k, 'v) DiskExtendibleHashTable) option" where
  "ht_Remove key t =
     (let hash = Hash t key
      in case as_header (fetch t (header_page_id' t)) of
           Inl e \<Rightarrow> Some (Inl e)
         | Inr header \<Rightarrow>
             (let dir_idx = HashToDirectoryIndex header hash;
                  dir_page_id = GetDirectoryPageId header dir_idx
              in if dir_page_id = INVALID_PAGE_ID then Some (Inr (False, t))
                 else
                   (case as_directory (fetch t dir_page_id) of
                      Inl e \<Rightarrow> Some (Inl e)
                    | Inr dir \<Rightarrow>
                        (let bucket_idx = HashToBucketIndex dir hash;
                             bucket_page_id = GetBucketPageId dir bucket_idx
                         in if bucket_page_id = INVALID_PAGE_ID then Some (Inr (False, t))
                            else
                              (case as_bucket (fetch t bucket_page_id) of
                                 Inl e \<Rightarrow> Some (Inl e)
                               | Inr bucket \<Rightarrow>
                                   (case bucket_Remove key (cmp' t) bucket of
                                      (False, _) \<Rightarrow> Some (Inr (False, t))
                                    | (True, bucket') \<Rightarrow>
                                        (case merge_loop dir_page_id bucket_idx bucket_page_id hash
                                                (write_page bucket_page_id (BucketP bucket') t) of
                                           None \<Rightarrow> None
                                         | Some (Inl e) \<Rightarrow> Some (Inl e)
                                         | Some (Inr t1) \<Rightarrow>
                                             (case as_directory (fetch t1 dir_page_id) of
                                                Inl e \<Rightarrow> Some (Inl e)
                                              | Inr dir1 \<Rightarrow>
                                                  (case shrink_loop dir1 of
                                                     Inl e \<Rightarrow> Some (Inl e)
                                                   | Inr dir2 \<Rightarrow>
                                                       Some (Inr (True,
                                                         write_page dir_page_id (DirectoryP dir2) t1)))))))))))"

section \<open>Example table\<close>

text \<open>
  Keys and values are natural numbers, the comparator is the difference and the hash
  of \<open>n\<close> is \<open>n\<close>.
\<close>

definition ex_cmp :: "nat \<Rightarrow> nat \<Rightarrow> int" where
  "ex_cmp a b = int a - int b"

definition ex_hash :: "nat \<Rightarrow> 32 word" where
  "ex_hash n = of_nat n"

text \<open>
  A directory page that \<open>Insert\<close> creates is zeroed apart from \<open>max_depth_\<close>
  (\<open>ExtendibleHTableDirectoryPage::Init\<close> sets nothing else), so its slot 0 holds the
  page id 0, not \<open>INVALID\<close>: the first \<open>Insert\<close> into a directory takes page 0 of the
  pool for its bucket. \<open>ex_bpm max_size\<close> is a pool whose page 0 is a bucket page:
  before the table is built, a client has taken a new page from the pool (page 0) and
  initialised it with the bucket page's \<open>Init(max_size)\<close>. \<open>ex_table max_size\<close> is the
  table the constructor builds on that pool, with header depth 1, directories of
  depth at most 2 and buckets of \<open>max_size\<close> entries; its header is page 1.
\<close>

definition ex_bpm :: "nat \<Rightarrow> (nat, nat) PageStore" where
  "ex_bpm max_size =
     (let (page_id, bpm) = NewPageGuarded new_PageStore
      in write_page page_id (BucketP (bucket_Init max_size zero_bucket)) bpm)"

definition ex_table :: "nat \<Rightarrow> (nat, nat) DiskExtendibleHashTable" where
  "ex_table max_size = new_DiskExtendibleHashTable (ex_bpm max_size) ex_cmp ex_hash 1 2 max_size"
section \<open>Sequences of hash table operations\<close>

text \<open>
  An operation of the table's interface, and what it returns: its boolean and, for
  \<open>GetValue\<close>, the result vector (empty when the call starts). A run executes a list of
  operations in order; it ends with the first operation that fails or does not
  return.
\<close>

datatype ('k, 'v) op = OpInsert 'k 'v | OpRemove 'k | OpGetValue 'k

definition exec_op ::
  "('k, 'v) op \<Rightarrow> ('k, 'v) DiskExtendibleHashTable \<Rightarrow>
     (error + (bool \<times> 'v list) \<times> ('k, 'v) DiskExtendibleHashTable) option" where
  "exec_op operation t =
     (case operation of
        OpInsert key val \<Rightarrow>
          (case Insert key val t of
             None \<Rightarrow> None
           | Some (Inl e) \<Rightarrow> Some (Inl e)
           | Some (Inr (ok, t1)) \<Rightarrow> Some (Inr ((ok, []), t1)))
      | OpRemove key \<Rightarrow>
          (case ht_Remove key t of
             None \<Rightarrow> None
           | Some (Inl e) \<Rightarrow> Some (Inl e)
           | Some (Inr (ok, t1)) \<Rightarrow> Some (Inr ((ok, []), t1)))
      | OpGetValue key \<Rightarrow>
          (case GetValue key [] t of
             Inl e \<Rightarrow> Some (Inl e)
           | Inr r \<Rightarrow> Some (Inr (r, t))))"

fun run ::
  "('k, 'v) op list \<Rightarrow> ('k, 'v) DiskExtendibleHashTable \<Rightarrow>
     (error + (bool \<times> 'v list) list \<times> ('k, 'v) DiskExtendibleHashTable) option" where
  "run [] t = Some (Inr ([], t))"
| "run (operation # ops) t =
     (case exec_op operation t of
        None \<Rightarrow> None
      | Some (Inl e) \<Rightarrow> Some (Inl e)
      | Some (Inr (r, t1)) \<Rightarrow>
          (case run ops t1 of
             None \<Rightarrow> None
           | Some (Inl e) \<Rightarrow> Some (Inl e)
           | Some (Inr (rs, t2)) \<Rightarrow> Some (Inr (r # rs, t2))))"

definition results ::
  "('k, 'v) op list \<Rightarrow> ('k, 'v) DiskExtendibleHashTable \<Rightarrow> (bool \<times> 'v list) list option" where
  "results ops t = (case run ops t of Some (Inr (rs, t')) \<Rightarrow> Some rs | _ \<Rightarrow> None)"

section \<open>Hash table: well-formed tables and the reference behaviour\<close>

text \<open>The comparator is zero exactly on equal keys.\<close>

definition cmp_ok :: "('k \<Rightarrow> 'k \<Rightarrow> int) \<Rightarrow> bool" where
  "cmp_ok cmp \<longleftrightarrow> (\<forall>a b. (cmp a b = 0) = (a = b))"

text \<open>
  The local depth and the bucket page id a directory gives to a hash: those of the
  slot \<open>hash mod 2^global_depth\<close>.
\<close>

definition slot_depth :: "DirectoryPage \<Rightarrow> nat \<Rightarrow> nat" where
  "slot_depth d h = local_depths' d (h mod 2 ^ global_depth' d)"

definition slot_page :: "DirectoryPage \<Rightarrow> nat \<Rightarrow> page_id_t" where
  "slot_page d h = bucket_page_ids' d (h mod 2 ^ global_depth' d)"

text \<open>
  A bucket page is well formed for the hashes that agree with \<open>h\<close> in the low \<open>depth\<close>
  bits and belong to directory \<open>di\<close> of the header: it has the table's \<open>max_size\<close>,
  holds at most that many entries, its keys are distinct, and every key hashes into
  that group and that directory.
\<close>

definition bucket_inv ::
  "('k, 'v) DiskExtendibleHashTable \<Rightarrow> HeaderPage \<Rightarrow> nat \<Rightarrow> nat \<Rightarrow> nat \<Rightarrow> ('k, 'v) BucketPage \<Rightarrow> bool" where
  "bucket_inv t hdr di depth h b \<longleftrightarrow>
     max_size' b = bucket_max_size' t \<and> length (array' b) \<le> max_size' b \<and>
     distinct (map fst (array' b)) \<and>
     (\<forall>k \<in> fst ` set (array' b).
        Hash t k mod 2 ^ depth = h mod 2 ^ depth \<and> HashToDirectoryIndex hdr (Hash t k) = di)"

text \<open>
  The slots of a directory are well formed: every local depth is at most the global
  depth; every slot holds the id of an allocated bucket page, well formed for the
  slot; two hashes get the same bucket page exactly when they agree in the low
  \<open>local_depth\<close> bits, and then they get the same local depth.
\<close>

definition slots_inv ::
  "('k, 'v) DiskExtendibleHashTable \<Rightarrow> HeaderPage \<Rightarrow> nat \<Rightarrow> DirectoryPage \<Rightarrow> bool" where
  "slots_inv t hdr di d \<longleftrightarrow>
     (\<forall>h. slot_depth d h \<le> global_depth' d \<and>
          slot_page d h \<noteq> INVALID_PAGE_ID \<and> slot_page d h < store_next_page_id' t \<and>
          (\<exists>b. fetch t (slot_page d h) = BucketP b \<and> bucket_inv t hdr di (slot_depth d h) h b) \<and>
          (\<forall>h'. (h' mod 2 ^ slot_depth d h = h mod 2 ^ slot_depth d h) = (slot_page d h' = slot_page d h)) \<and>
          (\<forall>h'. slot_page d h' = slot_page d h \<longrightarrow> slot_depth d h' = slot_depth d h))"

text \<open>
  A directory is well formed when it carries the table's \<open>max_depth\<close>, its global
  depth is within it, and either it has a single slot that holds no bucket yet, or
  its slots are well formed.
\<close>

definition dir_inv ::
  "('k, 'v) DiskExtendibleHashTable \<Rightarrow> HeaderPage \<Rightarrow> nat \<Rightarrow> DirectoryPage \<Rightarrow> bool" where
  "dir_inv t hdr di d \<longleftrightarrow>
     max_depth' d = directory_max_depth' t \<and> global_depth' d \<le> max_depth' d \<and>
     ((global_depth' d = 0 \<and> bucket_page_ids' d 0 = INVALID_PAGE_ID \<and> local_depths' d 0 = 0) \<or>
      slots_inv t hdr di d)"

text \<open>
  A table is well formed: the comparator is zero exactly on equal keys; the directory
  depth is below 31; page ids are not negative and every page from \<open>next_page_id\<close> on
  is blank; the header page is a header; every directory id of the header that is not
  \<open>INVALID\<close> is the id of a well-formed directory page; distinct header slots hold
  distinct directories, whose slots hold distinct bucket pages.
\<close>

definition table_inv :: "('k, 'v) DiskExtendibleHashTable \<Rightarrow> bool" where
  "table_inv t \<longleftrightarrow>
     cmp_ok (cmp' t) \<and>
     directory_max_depth' t < 31 \<and>
     0 \<le> store_next_page_id' t \<and>
     (\<forall>p. store_next_page_id' t \<le> p \<longrightarrow> fetch t p = Blank) \<and>
     (\<exists>hdr. fetch t (header_page_id' t) = HeaderP hdr \<and>
        (\<forall>di. directory_page_ids' hdr di \<noteq> INVALID_PAGE_ID \<longrightarrow>
           directory_page_ids' hdr di < store_next_page_id' t \<and>
           (\<exists>d. fetch t (directory_page_ids' hdr di) = DirectoryP d \<and> dir_inv t hdr di d)) \<and>
        (\<forall>di dj d e h h'.
           di \<noteq> dj \<and> directory_page_ids' hdr di \<noteq> INVALID_PAGE_ID \<and>
           directory_page_ids' hdr dj \<noteq> INVALID_PAGE_ID \<and>
           fetch t (directory_page_ids' hdr di) = DirectoryP d \<and>
           fetch t (directory_page_ids' hdr dj) = DirectoryP e \<longrightarrow>
           directory_page_ids' hdr di \<noteq> directory_page_ids' hdr dj \<and>
           (slot_page d h \<noteq> INVALID_PAGE_ID \<longrightarrow> slot_page d h \<noteq> slot_page e h')))"

text \<open>What \<open>GetValue\<close> finds for a key: the value, if the call succeeds with one value.\<close>

definition lookup :: "('k, 'v) DiskExtendibleHashTable \<Rightarrow> 'k \<Rightarrow> 'v option" where
  "lookup t key =
     (case GetValue key [] t of
        Inr (True, [v]) \<Rightarrow> Some v
      | _ \<Rightarrow> None)"

text \<open>
  The id of the directory page the header gives to a key, \<open>INVALID_PAGE_ID\<close> when
  there is none.
\<close>

definition key_directory :: "('k, 'v) DiskExtendibleHashTable \<Rightarrow> 'k \<Rightarrow> page_id_t" where
  "key_directory t key =
     (case fetch t (header_page_id' t) of
        HeaderP hdr \<Rightarrow> GetDirectoryPageId hdr (HashToDirectoryIndex hdr (Hash t key))
      | _ \<Rightarrow> INVALID_PAGE_ID)"

text \<open>
  Whether \<open>Remove(key)\<close> merges: the key is found and removed, and the first round of
  the merge loop finds the merge predicate true.
\<close>

definition merges :: "('k, 'v) DiskExtendibleHashTable \<Rightarrow> 'k \<Rightarrow> bool" where
  "merges t key =
     (let hash = Hash t key; dir_page_id = key_directory t key
      in if dir_page_id = INVALID_PAGE_ID then False
         else
           (case as_directory (fetch t dir_page_id) of
              Inl e \<Rightarrow> False
            | Inr dir \<Rightarrow>
                (let bucket_idx = HashToBucketIndex dir hash;
                     bucket_page_id = GetBucketPageId dir bucket_idx
                 in if bucket_page_id = INVALID_PAGE_ID then False
                    else
                      (case as_bucket (fetch t bucket_page_id) of
                         Inl e \<Rightarrow> False
                       | Inr bucket \<Rightarrow>
                           (case bucket_Remove key (cmp' t) bucket of
                              (False, _) \<Rightarrow> False
                            | (True, bucket') \<Rightarrow>
                                (case merge_test dir bucket_idx bucket'
                                        (write_page bucket_page_id (BucketP bucket') t) of
                                   Inr (Some _) \<Rightarrow> True
                                 | _ \<Rightarrow> False))))))"

text \<open>
  The runs the round-trip theorem is about: every \<open>Insert\<close> goes to a directory page
  that exists, and no \<open>Remove\<close> merges buckets.
\<close>

definition admissible :: "('k, 'v) op \<Rightarrow> ('k, 'v) DiskExtendibleHashTable \<Rightarrow> bool" where
  "admissible operation t =
     (case operation of
        OpInsert key val \<Rightarrow> key_directory t key \<noteq> INVALID_PAGE_ID
      | OpRemove key \<Rightarrow> \<not> merges t key
      | OpGetValue key \<Rightarrow> True)"

fun quiet :: "('k, 'v) op list \<Rightarrow> ('k, 'v) DiskExtendibleHashTable \<Rightarrow> bool" where
  "quiet [] t = True"
| "quiet (operation # ops) t =
     (admissible operation t \<and>
      (case exec_op operation t of
         Some (Inr (r, t1)) \<Rightarrow> quiet ops t1
       | _ \<Rightarrow> True))"

text \<open>
  The reference behaviour: a map from keys to values, to which the results of a run
  are compared. \<open>Insert(k, v)\<close> returns \<open>false\<close> when \<open>k\<close> is stored, and stores \<open>v\<close>
  exactly when it returns \<open>true\<close>; \<open>Remove(k)\<close> returns whether \<open>k\<close> was stored and
  leaves it not stored; \<open>GetValue(k)\<close> returns \<open>true\<close> and the one stored value, or
  \<open>false\<close> and nothing.
\<close>

fun agrees :: "('k \<Rightarrow> 'v option) \<Rightarrow> ('k, 'v) op list \<Rightarrow> (bool \<times> 'v list) list \<Rightarrow> bool" where
  "agrees m [] rs = (rs = [])"
| "agrees m (OpInsert k v # ops) rs =
     (case rs of
        [] \<Rightarrow> False
      | (ok, vs) # rs' \<Rightarrow>
          vs = [] \<and> (m k \<noteq> None \<longrightarrow> \<not> ok) \<and> agrees (if ok then m(k \<mapsto> v) else m) ops rs')"
| "agrees m (OpRemove k # ops) rs =
     (case rs of
        [] \<Rightarrow> False
      | (ok, vs) # rs' \<Rightarrow> vs = [] \<and> ok = (m k \<noteq> None) \<and> agrees (m(k := None)) ops rs')"
| "agrees m (OpGetValue k # ops) rs =
     (case rs of
        [] \<Rightarrow> False
      | (ok, vs) # rs' \<Rightarrow>
          (ok, vs) = (case m k of None \<Rightarrow> (False, []) | Some v \<Rightarrow> (True, [v])) \<and> agrees m ops rs')"

section \<open>Properties of the replacer\<close>

lemma ex_replacer_reachable:
  "SetEvictable 3 True (RecordAccess 3
     (RecordAccess 2 (RecordAccess 1
       (case SetEvictable 2 True (RecordAccess 2
          (case SetEvictable 1 True (RecordAccess 1 (new_LRUKReplacer 7 2)) of Inr r \<Rightarrow> r)) of Inr r \<Rightarrow> r))))
   = Inr ex_replacer"
  by (simp add: ex_replacer_def new_LRUKReplacer_def RecordAccess_def SetEvictable_def
      new_LRUKNode_def Access_def node_SetEvictable_def Let_def)

lemma ex_pool_reachable:
  "\<exists>s1. NewPage (new_BufferPoolManager 4 1 2) = Inr (Some (0, 0), s1) \<and>
     UnpinPage 0 True (s1\<lparr>pages' := (pages' s1)[0 := (pages' s1 ! 0)\<lparr>data' := [65, 65, 65, 65]\<rparr>]\<rparr>)
       = Inr (True, ex_pool)"
  by (simp add: ex_pool_def NewPage_def new_BufferPoolManager_def new_Page_def new_LRUKReplacer_def
      pick_frame_def write_back_def RecordAccess_def SetEvictable_def new_LRUKNode_def Access_def
      node_SetEvictable_def UnpinPage_def Let_def INVALID_PAGE_ID_def)

text \<open>
  C10. \<open>LRUKReplacer::Remove\<close> with a frame id that has no node returns normally and
  leaves the whole replacer state as it was (\<open>curr_size_\<close> included); the usage error
  is raised exactly when the node is present and not evictable.
\<close>

theorem Remove_absent_is_noop:
  "(map_of (node_store' r) frame_id = None \<longrightarrow> Remove frame_id r = Inr r) \<and>
   ((\<exists>e. Remove frame_id r = Inl e) \<longleftrightarrow>
      (\<exists>node. map_of (node_store' r) frame_id = Some node \<and> \<not> is_evictable' node))"
  by (auto simp: Remove_def split: option.splits)

theorem Remove_absent_is_noop_witness:
  "map_of (node_store' ex_replacer) 4 = None \<and> Remove 4 ex_replacer = Inr ex_replacer \<and>
   curr_size' ex_replacer = 3"
proof -
  have absent: "map_of (node_store' ex_replacer) 4 = None"
    by (simp add: ex_replacer_def)
  with Remove_absent_is_noop[of ex_replacer 4] show ?thesis
    by (simp add: ex_replacer_def)
qed

lemma node_less_trans:
  "k' a = K \<Longrightarrow> k' b = K \<Longrightarrow> node_less a b \<Longrightarrow> node_less b c \<Longrightarrow> node_less a c"
  by (auto simp: node_less_def split: if_splits)

lemma node_less_neg_trans:
  "k' a = K \<Longrightarrow> k' b = K \<Longrightarrow> node_less a c \<Longrightarrow> \<not> node_less b c \<Longrightarrow> node_less a b"
  by (auto simp: node_less_def split: if_splits)

lemma evict_scan_None:
  "evict_scan ps victim = None \<longleftrightarrow> victim = None \<and> (\<forall>p\<in>set ps. \<not> is_evictable' (snd p))"
  by (induction ps arbitrary: victim) (auto split: option.splits)

lemma evict_scan_mem:
  "evict_scan ps victim = Some w \<Longrightarrow> victim = Some w \<or> (\<exists>p\<in>set ps. snd p = w \<and> is_evictable' w)"
  by (induction ps arbitrary: victim) (auto split: option.splits if_splits)

lemma evict_scan_min:
  assumes "\<forall>p\<in>set ps. k' (snd p) = K" and "\<forall>v. victim = Some v \<longrightarrow> k' v = K"
    and "evict_scan ps victim = Some w"
  shows "(\<forall>v. victim = Some v \<longrightarrow> v = w \<or> \<not> node_less v w) \<and>
         (\<forall>p\<in>set ps. is_evictable' (snd p) \<longrightarrow> snd p = w \<or> \<not> node_less (snd p) w)"
  using assms
proof (induction ps arbitrary: victim)
  case Nil
  then show ?case by auto
next
  case (Cons p ps)
  have kp: "k' (snd p) = K" and kps: "\<forall>q\<in>set ps. k' (snd q) = K"
    using Cons.prems(1) by auto
  show ?case
  proof (cases "is_evictable' (snd p)")
    case False
    with Cons.IH[of victim] Cons.prems kps show ?thesis
      by auto
  next
    case True
    show ?thesis
    proof (cases victim)
      case None
      with True Cons.prems(3) have "evict_scan ps (Some (snd p)) = Some w" by simp
      from Cons.IH[OF kps _ this] kp None show ?thesis by auto
    next
      case (Some v)
      have kv: "k' v = K" using Cons.prems(2) Some by simp
      show ?thesis
      proof (cases "node_less (snd p) v")
        case less: True
        with True Some Cons.prems(3) have "evict_scan ps (Some (snd p)) = Some w" by simp
        from Cons.IH[OF kps _ this] kp
        have a: "snd p = w \<or> \<not> node_less (snd p) w"
          and b: "\<forall>q\<in>set ps. is_evictable' (snd q) \<longrightarrow> snd q = w \<or> \<not> node_less (snd q) w"
          by auto
        have "\<not> node_less v w"
        proof
          assume "node_less v w"
          with less kp kv have "node_less (snd p) w" by (blast intro: node_less_trans)
          with a have "snd p = w" by simp
          with less \<open>node_less v w\<close> kp kv show False
            by (auto simp: node_less_def split: if_splits)
        qed
        with a b Some show ?thesis by auto
      next
        case nless: False
        with True Some Cons.prems(3) have "evict_scan ps (Some v) = Some w" by simp
        from Cons.IH[OF kps _ this] kv
        have a: "v = w \<or> \<not> node_less v w"
          and b: "\<forall>q\<in>set ps. is_evictable' (snd q) \<longrightarrow> snd q = w \<or> \<not> node_less (snd q) w"
          by auto
        have "\<not> node_less (snd p) w"
        proof
          assume l: "node_less (snd p) w"
          show False
          proof (cases "v = w")
            case True with l nless show False by simp
          next
            case False
            with a have "\<not> node_less v w" by simp
            with l kp kv have "node_less (snd p) v" by (blast intro: node_less_neg_trans)
            with nless show False by simp
          qed
        qed
        with a b Some show ?thesis by auto
      qed
    qed
  qed
qed

lemma node_less_irrefl: "\<not> node_less a a"
  by (simp add: node_less_def)

lemma inv_node:
  "replacer_inv r \<Longrightarrow> (f, n) \<in> set (node_store' r) \<Longrightarrow>
     fid' n = f \<and> k' n = replacer_k' r \<and> history' n \<noteq> [] \<and> hd (history' n) \<le> current_timestamp' r"
  unfolding replacer_inv_def list_all_iff
  by (cases "history' n") (auto simp: less_imp_le)

lemma not_less_distance:
  assumes "k' a = K" "k' b = K" "replacer_k' r = K"
    and "hd (history' a) \<le> current_timestamp' r" "hd (history' b) \<le> current_timestamp' r"
    and "\<not> node_less a b"
  shows "backward_k_distance r a \<le> backward_k_distance r b \<and>
         (backward_k_distance r a = \<infinity> \<and> backward_k_distance r b = \<infinity> \<longrightarrow>
            last (history' b) \<le> last (history' a)) \<and>
         (backward_k_distance r a \<noteq> \<infinity> \<and> backward_k_distance r b \<noteq> \<infinity> \<longrightarrow>
            hd (history' b) \<le> hd (history' a))"
proof -
  have sub: "unat (current_timestamp' r - hd (history' a)) \<le> unat (current_timestamp' r - hd (history' b))"
    if "hd (history' b) \<le> hd (history' a)"
    using that assms(4,5) by (simp add: unat_sub word_le_nat_alt)
  show ?thesis
    using assms(1,2,3,6) sub
    by (auto simp: backward_k_distance_def node_less_def not_less split: if_splits)
qed

text \<open>
  C6. In a replacer state satisfying the invariant, \<open>Evict\<close> fails and changes nothing
  when no node is evictable; otherwise it returns the frame of an evictable node \<open>v\<close>,
  removes that node and decrements \<open>curr_size_\<close>, and \<open>v\<close> has the largest backward
  K-distance among the evictable nodes (infinite for fewer than K accesses). Among
  nodes of infinite distance \<open>v\<close> has the smallest most recent timestamp, among nodes of
  finite distance the smallest oldest preserved timestamp.
\<close>

theorem Evict_largest_k_distance:
  assumes "replacer_inv r"
  shows "((\<forall>p\<in>set (node_store' r). \<not> is_evictable' (snd p)) \<longrightarrow> Evict r = (None, r)) \<and>
         ((\<exists>p\<in>set (node_store' r). is_evictable' (snd p)) \<longrightarrow>
            (\<exists>v. (fid' v, v) \<in> set (node_store' r) \<and> is_evictable' v \<and>
                 Evict r = (Some (fid' v),
                            r\<lparr>node_store' := AList.delete (fid' v) (node_store' r),
                              curr_size' := curr_size' r - 1\<rparr>) \<and>
                 map_of (node_store' (snd (Evict r))) (fid' v) = None \<and>
                 (\<forall>p\<in>set (node_store' r). is_evictable' (snd p) \<longrightarrow>
                    backward_k_distance r (snd p) \<le> backward_k_distance r v \<and>
                    (backward_k_distance r (snd p) = \<infinity> \<and> backward_k_distance r v = \<infinity> \<longrightarrow>
                       last (history' v) \<le> last (history' (snd p))) \<and>
                    (backward_k_distance r (snd p) \<noteq> \<infinity> \<and> backward_k_distance r v \<noteq> \<infinity> \<longrightarrow>
                       hd (history' v) \<le> hd (history' (snd p))))))"
proof (intro conjI impI)
  assume "\<forall>p\<in>set (node_store' r). \<not> is_evictable' (snd p)"
  then have "evict_scan (node_store' r) None = None"
    by (simp add: evict_scan_None)
  then show "Evict r = (None, r)" by (simp add: Evict_def)
next
  assume ex: "\<exists>p\<in>set (node_store' r). is_evictable' (snd p)"
  then obtain v where v: "evict_scan (node_store' r) None = Some v"
    using evict_scan_None[of "node_store' r" None] by (cases "evict_scan (node_store' r) None") auto
  from evict_scan_mem[OF v] obtain p where p: "p \<in> set (node_store' r)" "snd p = v" "is_evictable' v"
    by auto
  then have pin: "(fst p, v) \<in> set (node_store' r)" by (metis prod.collapse)
  from inv_node[OF assms pin] have fv: "fid' v = fst p" and kv: "k' v = replacer_k' r"
    and hv: "hd (history' v) \<le> current_timestamp' r" by auto
  have kall: "\<forall>q\<in>set (node_store' r). k' (snd q) = replacer_k' r"
    using inv_node[OF assms] by (metis prod.collapse)
  from evict_scan_min[OF kall _ v]
  have minv: "\<forall>q\<in>set (node_store' r). is_evictable' (snd q) \<longrightarrow> \<not> node_less (snd q) v"
    using node_less_irrefl by auto
  have dist: "\<forall>q\<in>set (node_store' r). is_evictable' (snd q) \<longrightarrow>
                backward_k_distance r (snd q) \<le> backward_k_distance r v \<and>
                (backward_k_distance r (snd q) = \<infinity> \<and> backward_k_distance r v = \<infinity> \<longrightarrow>
                   last (history' v) \<le> last (history' (snd q))) \<and>
                (backward_k_distance r (snd q) \<noteq> \<infinity> \<and> backward_k_distance r v \<noteq> \<infinity> \<longrightarrow>
                   hd (history' v) \<le> hd (history' (snd q)))"
  proof (intro ballI impI)
    fix q assume q: "q \<in> set (node_store' r)" and e: "is_evictable' (snd q)"
    have qin: "(fst q, snd q) \<in> set (node_store' r)" using q by simp
    from inv_node[OF assms qin] have kq: "k' (snd q) = replacer_k' r"
      and hq: "hd (history' (snd q)) \<le> current_timestamp' r" by auto
    from minv q e have "\<not> node_less (snd q) v" by blast
    from not_less_distance[OF kq kv refl hq hv this]
    show "backward_k_distance r (snd q) \<le> backward_k_distance r v \<and>
                (backward_k_distance r (snd q) = \<infinity> \<and> backward_k_distance r v = \<infinity> \<longrightarrow>
                   last (history' v) \<le> last (history' (snd q))) \<and>
                (backward_k_distance r (snd q) \<noteq> \<infinity> \<and> backward_k_distance r v \<noteq> \<infinity> \<longrightarrow>
                   hd (history' v) \<le> hd (history' (snd q)))" .
  qed
  have ev: "Evict r = (Some (fid' v),
                            r\<lparr>node_store' := AList.delete (fid' v) (node_store' r),
                              curr_size' := curr_size' r - 1\<rparr>)"
    using v by (simp add: Evict_def)
  have gone: "map_of (node_store' (snd (Evict r))) (fid' v) = None"
    by (simp add: ev delete_conv')
  show "\<exists>v. (fid' v, v) \<in> set (node_store' r) \<and> is_evictable' v \<and>
                 Evict r = (Some (fid' v),
                            r\<lparr>node_store' := AList.delete (fid' v) (node_store' r),
                              curr_size' := curr_size' r - 1\<rparr>) \<and>
                 map_of (node_store' (snd (Evict r))) (fid' v) = None \<and>
                 (\<forall>p\<in>set (node_store' r). is_evictable' (snd p) \<longrightarrow>
                    backward_k_distance r (snd p) \<le> backward_k_distance r v \<and>
                    (backward_k_distance r (snd p) = \<infinity> \<and> backward_k_distance r v = \<infinity> \<longrightarrow>
                       last (history' v) \<le> last (history' (snd p))) \<and>
                    (backward_k_distance r (snd p) \<noteq> \<infinity> \<and> backward_k_distance r v \<noteq> \<infinity> \<longrightarrow>
                       hd (history' v) \<le> hd (history' (snd p))))"
    using pin fv p(3) ev gone dist by (intro exI[of _ v]) simp
qed

theorem Evict_largest_k_distance_witness:
  "replacer_inv ex_replacer \<and>
   (\<exists>p\<in>set (node_store' ex_replacer). is_evictable' (snd p)) \<and>
   fst (Evict ex_replacer) = Some 3 \<and>
   (\<exists>v. (fid' v, v) \<in> set (node_store' ex_replacer) \<and> is_evictable' v \<and>
        fst (Evict ex_replacer) = Some (fid' v) \<and>
        map_of (node_store' (snd (Evict ex_replacer))) (fid' v) = None \<and>
        (\<forall>p\<in>set (node_store' ex_replacer). is_evictable' (snd p) \<longrightarrow>
           backward_k_distance ex_replacer (snd p) \<le> backward_k_distance ex_replacer v))"
proof -
  have inv: "replacer_inv ex_replacer"
    by (simp add: replacer_inv_def ex_replacer_def)
  have ev: "\<exists>p\<in>set (node_store' ex_replacer). is_evictable' (snd p)"
    by (simp add: ex_replacer_def)
  have three: "fst (Evict ex_replacer) = Some 3"
    by (simp add: Evict_def ex_replacer_def node_less_def)
  from Evict_largest_k_distance[OF inv] ev
  have "\<exists>v. (fid' v, v) \<in> set (node_store' ex_replacer) \<and> is_evictable' v \<and>
          Evict ex_replacer = (Some (fid' v),
                            ex_replacer\<lparr>node_store' := AList.delete (fid' v) (node_store' ex_replacer),
                              curr_size' := curr_size' ex_replacer - 1\<rparr>) \<and>
          map_of (node_store' (snd (Evict ex_replacer))) (fid' v) = None \<and>
          (\<forall>p\<in>set (node_store' ex_replacer). is_evictable' (snd p) \<longrightarrow>
                    backward_k_distance ex_replacer (snd p) \<le> backward_k_distance ex_replacer v \<and>
                    (backward_k_distance ex_replacer (snd p) = \<infinity> \<and> backward_k_distance ex_replacer v = \<infinity> \<longrightarrow>
                       last (history' v) \<le> last (history' (snd p))) \<and>
                    (backward_k_distance ex_replacer (snd p) \<noteq> \<infinity> \<and> backward_k_distance ex_replacer v \<noteq> \<infinity> \<longrightarrow>
                       hd (history' v) \<le> hd (history' (snd p))))"
    by (rule conjunct2[THEN mp])
  then obtain v where v: "(fid' v, v) \<in> set (node_store' ex_replacer)" "is_evictable' v"
    "Evict ex_replacer = (Some (fid' v),
                            ex_replacer\<lparr>node_store' := AList.delete (fid' v) (node_store' ex_replacer),
                              curr_size' := curr_size' ex_replacer - 1\<rparr>)"
    "map_of (node_store' (snd (Evict ex_replacer))) (fid' v) = None"
    "\<forall>p\<in>set (node_store' ex_replacer). is_evictable' (snd p) \<longrightarrow>
           backward_k_distance ex_replacer (snd p) \<le> backward_k_distance ex_replacer v"
    by blast
  from v(3) have "fst (Evict ex_replacer) = Some (fid' v)" by simp
  with v(1,2,4,5) have "\<exists>v. (fid' v, v) \<in> set (node_store' ex_replacer) \<and> is_evictable' v \<and>
        fst (Evict ex_replacer) = Some (fid' v) \<and>
        map_of (node_store' (snd (Evict ex_replacer))) (fid' v) = None \<and>
        (\<forall>p\<in>set (node_store' ex_replacer). is_evictable' (snd p) \<longrightarrow>
           backward_k_distance ex_replacer (snd p) \<le> backward_k_distance ex_replacer v)"
    by blast
  with inv ev three show ?thesis by blast
qed

section \<open>Properties of the buffer pool manager\<close>

lemma SetEvictable_after_RecordAccess:
  "\<exists>r'. SetEvictable f b (RecordAccess f r) = Inr r'"
  by (auto simp: SetEvictable_def RecordAccess_def Let_def update_conv' split: prod.splits)

text \<open>
  C8. \<open>DeletePage\<close> of a mapped page whose pin count is zero succeeds, resets the
  frame and puts it on the free list, but leaves the page table as it was: the entry
  of the deleted page still names the frame. A \<open>FetchPage\<close> of the same page id that
  follows takes the page-table-hit path: it returns that frame, pinned once, while the
  frame is still on the free list, and schedules no disk request at all.
\<close>

theorem DeletePage_keeps_page_table_entry:
  assumes "page_table' s p = Some f"
    and "f < length (pages' s)"
    and "pin_count' (pages' s ! f) = 0"
    and "\<forall>n. map_of (node_store' (replacer' s)) f = Some n \<longrightarrow> is_evictable' n"
  shows "\<exists>s1 s2.
           DeletePage page_size p s = Inr (True, s1) \<and>
           page_table' s1 = page_table' s \<and> page_table' s1 p = Some f \<and>
           f \<in> set (free_list' s1) \<and>
           page_id' (pages' s1 ! f) = INVALID_PAGE_ID \<and>
           data' (pages' s1 ! f) = replicate page_size 0 \<and>
           disk' s1 = disk' s \<and>
           FetchPage p s1 = Inr (Some f, s2) \<and>
           f \<in> set (free_list' s2) \<and>
           pin_count' (pages' s2 ! f) = 1 \<and>
           data' (pages' s2 ! f) = replicate page_size 0 \<and>
           disk' s2 = disk' s"
proof -
  obtain r1 where r1: "Remove f (replacer' s) = Inr r1"
    using assms(4) by (cases "map_of (node_store' (replacer' s)) f") (auto simp: Remove_def)
  define s1 where "s1 = s\<lparr>pages' := (pages' s)[f := ResetMemory page_size
                                ((pages' s ! f)\<lparr>is_dirty' := False, page_id' := INVALID_PAGE_ID, pin_count' := 0\<rparr>)],
                                     free_list' := free_list' s @ [f],
                                     replacer' := r1\<rparr>"
  have d: "DeletePage page_size p s = Inr (True, s1)"
    using assms r1 by (simp add: DeletePage_def Let_def s1_def)
  obtain r2 where r2: "SetEvictable f False (RecordAccess f (replacer' s1)) = Inr r2"
    using SetEvictable_after_RecordAccess by blast
  define s2 where "s2 = s1\<lparr>pages' := (pages' s1)[f := (pages' s1 ! f)\<lparr>pin_count' := pin_count' (pages' s1 ! f) + 1\<rparr>], replacer' := r2\<rparr>"
  have pt: "page_table' s1 p = Some f" using assms(1) by (simp add: s1_def)
  have f: "FetchPage p s1 = Inr (Some f, s2)"
    using pt r2 by (simp add: FetchPage_def Let_def s2_def)
  show ?thesis
    using d f assms(1,2) by (auto simp: s1_def s2_def ResetMemory_def)
qed

lemma pick_frame_frames:
  "pick_frame s = Some (f, is_free, s2) \<Longrightarrow> pages' s2 = pages' s \<and> disk' s2 = disk' s"
  by (auto simp: pick_frame_def split: list.splits prod.splits option.splits)

lemma NewPage_writes_back:
  assumes "pick_frame s = Some (f, is_free, s2)" and "is_dirty' (pages' s ! f)"
  shows "\<exists>pid s3. NewPage s = Inr (Some (pid, f), s3) \<and>
           disk_log' (disk' s3) =
             disk_log' (disk' s) @ [WriteRequest (page_id' (pages' s ! f)) (data' (pages' s ! f))]"
proof -
  obtain r2 where r2: "SetEvictable f False (RecordAccess f (replacer' s2)) = Inr r2"
    using SetEvictable_after_RecordAccess by blast
  show ?thesis
    using assms r2 pick_frame_frames[OF assms(1)]
    by (simp add: NewPage_def Let_def write_back_def schedule_write_def)
qed

lemma FetchPage_writes_back:
  assumes "pick_frame s = Some (f, is_free, s2)" and "is_dirty' (pages' s ! f)"
    and "page_table' s q = None"
  shows "\<exists>s3. FetchPage q s = Inr (Some f, s3) \<and>
           disk_log' (disk' s3) =
             disk_log' (disk' s) @ [WriteRequest (page_id' (pages' s ! f)) (data' (pages' s ! f)),
                                    ReadRequest q]"
proof -
  obtain r2 where r2: "SetEvictable f False (RecordAccess f (replacer' s2)) = Inr r2"
    using SetEvictable_after_RecordAccess by blast
  show ?thesis
    using assms r2 pick_frame_frames[OF assms(1)]
    by (simp add: FetchPage_def Let_def write_back_def schedule_write_def schedule_read_def
             split: prod.splits)
qed

text \<open>
  C9. \<open>FlushPage\<close> of a mapped page schedules one write of the frame's page id and
  buffer and changes nothing else: the frames (dirty flag, pin count, page id and
  buffer), the page table, the free list and the replacer are as before. So when the
  frame was dirty and is then chosen as the victim of \<open>NewPage\<close> or of a \<open>FetchPage\<close> miss,
  the same page image is written to disk once more.
\<close>

theorem FlushPage_leaves_frame_dirty:
  assumes "page_table' s p = Some f"
  shows "\<exists>s1. FlushPage p s = (True, s1) \<and>
           pages' s1 = pages' s \<and> page_table' s1 = page_table' s \<and>
           free_list' s1 = free_list' s \<and> replacer' s1 = replacer' s \<and>
           next_page_id' s1 = next_page_id' s \<and>
           disk_log' (disk' s1) =
             disk_log' (disk' s) @ [WriteRequest (page_id' (pages' s ! f)) (data' (pages' s ! f))] \<and>
           (is_dirty' (pages' s ! f) \<longrightarrow>
              (\<forall>s2 is_free. pick_frame s1 = Some (f, is_free, s2) \<longrightarrow>
                 (\<exists>pid s3. NewPage s1 = Inr (Some (pid, f), s3) \<and>
                    disk_log' (disk' s3) =
                      disk_log' (disk' s1) @ [WriteRequest (page_id' (pages' s ! f)) (data' (pages' s ! f))]) \<and>
                 (\<forall>q. page_table' s1 q = None \<longrightarrow>
                    (\<exists>s3. FetchPage q s1 = Inr (Some f, s3) \<and>
                       disk_log' (disk' s3) =
                         disk_log' (disk' s1) @ [WriteRequest (page_id' (pages' s ! f)) (data' (pages' s ! f)),
                                                 ReadRequest q]))))"
proof -
  define s1 where "s1 = s\<lparr>disk' := schedule_write (page_id' (pages' s ! f)) (data' (pages' s ! f)) (disk' s)\<rparr>"
  have fl: "FlushPage p s = (True, s1)"
    using assms by (simp add: FlushPage_def Let_def s1_def)
  have same: "pages' s1 = pages' s" by (simp add: s1_def)
  have frame: "pages' s1 = pages' s \<and> page_table' s1 = page_table' s \<and>
           free_list' s1 = free_list' s \<and> replacer' s1 = replacer' s \<and>
           next_page_id' s1 = next_page_id' s \<and>
           disk_log' (disk' s1) =
             disk_log' (disk' s) @ [WriteRequest (page_id' (pages' s ! f)) (data' (pages' s ! f))]"
    by (simp add: s1_def schedule_write_def)
  have later: "is_dirty' (pages' s ! f) \<longrightarrow>
              (\<forall>s2 is_free. pick_frame s1 = Some (f, is_free, s2) \<longrightarrow>
                 (\<exists>pid s3. NewPage s1 = Inr (Some (pid, f), s3) \<and>
                    disk_log' (disk' s3) =
                      disk_log' (disk' s1) @ [WriteRequest (page_id' (pages' s ! f)) (data' (pages' s ! f))]) \<and>
                 (\<forall>q. page_table' s1 q = None \<longrightarrow>
                    (\<exists>s3. FetchPage q s1 = Inr (Some f, s3) \<and>
                       disk_log' (disk' s3) =
                         disk_log' (disk' s1) @ [WriteRequest (page_id' (pages' s ! f)) (data' (pages' s ! f)),
                                                 ReadRequest q])))"
    using NewPage_writes_back[of s1 f] FetchPage_writes_back[of s1 f] same by metis
  show ?thesis
    using fl frame later by blast
qed

text \<open>
  C3. What \<open>NewPage\<close> does to the buffer of the frame it hands out: nothing. In a pool
  of one frame, the page returned by the second \<open>NewPage\<close>, whose frame comes from
  eviction, still holds the bytes the client wrote into page 0. Pin count, dirty flag,
  page id, page table and write-back are as the claim says.
\<close>

theorem NewPage_eviction_keeps_stale_buffer:
  "\<exists>s1 s2 s3.
     NewPage (new_BufferPoolManager 4 1 2) = Inr (Some (0, 0), s1) \<and>
     data' (pages' s1 ! 0) = [0, 0, 0, 0] \<and>
     UnpinPage 0 True (s1\<lparr>pages' := (pages' s1)[0 := (pages' s1 ! 0)\<lparr>data' := [65, 65, 65, 65]\<rparr>]\<rparr>)
       = Inr (True, s2) \<and>
     NewPage s2 = Inr (Some (1, 0), s3) \<and>
     data' (pages' s3 ! 0) = [65, 65, 65, 65] \<and>
     pin_count' (pages' s3 ! 0) = 1 \<and> \<not> is_dirty' (pages' s3 ! 0) \<and> page_id' (pages' s3 ! 0) = 1 \<and>
     page_table' s3 1 = Some 0 \<and>
     disk_log' (disk' s3) = [WriteRequest 0 [65, 65, 65, 65]]"
  by (simp add: NewPage_def new_BufferPoolManager_def new_Page_def new_LRUKReplacer_def pick_frame_def
      write_back_def RecordAccess_def SetEvictable_def new_LRUKNode_def Access_def node_SetEvictable_def
      UnpinPage_def Evict_def Let_def schedule_write_def INVALID_PAGE_ID_def numeral_eq_Suc)

theorem DeletePage_keeps_page_table_entry_witness:
  "page_table' ex_pool 0 = Some 0 \<and> 0 < length (pages' ex_pool) \<and>
   pin_count' (pages' ex_pool ! 0) = 0 \<and>
   (\<exists>s1 s2. DeletePage 4 0 ex_pool = Inr (True, s1) \<and> page_table' s1 0 = Some 0 \<and>
      0 \<in> set (free_list' s1) \<and>
      FetchPage 0 s1 = Inr (Some 0, s2) \<and> 0 \<in> set (free_list' s2) \<and>
      pin_count' (pages' s2 ! 0) = 1 \<and> disk' s2 = disk' ex_pool)"
proof -
  have a: "page_table' ex_pool 0 = Some 0" by (simp add: ex_pool_def)
  have b: "0 < length (pages' ex_pool)" by (simp add: ex_pool_def)
  have c: "pin_count' (pages' ex_pool ! 0) = 0" by (simp add: ex_pool_def)
  have d: "\<forall>n. map_of (node_store' (replacer' ex_pool)) 0 = Some n \<longrightarrow> is_evictable' n"
    by (simp add: ex_pool_def)
  from DeletePage_keeps_page_table_entry[OF a b c d, of 4] a b c show ?thesis
    by blast
qed

theorem FlushPage_leaves_frame_dirty_witness:
  "page_table' ex_pool 0 = Some 0 \<and> is_dirty' (pages' ex_pool ! 0) \<and>
   (\<exists>s1 s2 pid s3. FlushPage 0 ex_pool = (True, s1) \<and> pages' s1 = pages' ex_pool \<and>
      pick_frame s1 = Some (0, False, s2) \<and>
      NewPage s1 = Inr (Some (pid, 0), s3) \<and>
      disk_log' (disk' s3) = [WriteRequest 0 [65, 65, 65, 65], WriteRequest 0 [65, 65, 65, 65]])"
proof -
  have a: "page_table' ex_pool 0 = Some 0" by (simp add: ex_pool_def)
  have b: "is_dirty' (pages' ex_pool ! 0)" by (simp add: ex_pool_def)
  from FlushPage_leaves_frame_dirty[OF a] b obtain s1 where
    s1: "FlushPage 0 ex_pool = (True, s1)" "pages' s1 = pages' ex_pool"
      "disk_log' (disk' s1) =
         disk_log' (disk' ex_pool) @ [WriteRequest (page_id' (pages' ex_pool ! 0)) (data' (pages' ex_pool ! 0))]"
    and later: "\<forall>s2 is_free. pick_frame s1 = Some (0, is_free, s2) \<longrightarrow>
         (\<exists>pid s3. NewPage s1 = Inr (Some (pid, 0), s3) \<and>
            disk_log' (disk' s3) =
              disk_log' (disk' s1) @ [WriteRequest (page_id' (pages' ex_pool ! 0)) (data' (pages' ex_pool ! 0))])"
    by blast
  have s1_eq: "s1 = snd (FlushPage 0 ex_pool)" using s1(1) by simp
  have "\<exists>s2. pick_frame s1 = Some (0, False, s2)"
    unfolding s1_eq
    by (simp add: FlushPage_def ex_pool_def pick_frame_def Evict_def Let_def)
  then obtain s2 where pk: "pick_frame s1 = Some (0, False, s2)" ..
  with later obtain pid s3 where "NewPage s1 = Inr (Some (pid, 0), s3)"
    "disk_log' (disk' s3) =
       disk_log' (disk' s1) @ [WriteRequest (page_id' (pages' ex_pool ! 0)) (data' (pages' ex_pool ! 0))]"
    by blast
  moreover have "disk_log' (disk' s1) = [WriteRequest 0 [65, 65, 65, 65]]"
    using s1(3) by (simp add: ex_pool_def)
  moreover have "page_id' (pages' ex_pool ! 0) = 0" "data' (pages' ex_pool ! 0) = [65, 65, 65, 65]"
    by (simp_all add: ex_pool_def)
  ultimately show ?thesis using a b s1(1,2) pk by auto
qed

section \<open>Properties of the trie\<close>

lemma lookup_val_Nil [simp]: "lookup_val n [] = value' n"
  by (simp add: lookup_val_def)

lemma lookup_val_Cons [simp]:
  "lookup_val n (k # key) = (case fmlookup (children' n) k of None \<Rightarrow> None | Some c \<Rightarrow> lookup_val c key)"
  by (simp add: lookup_val_def split: option.splits)

lemma lookup_val_empty [simp]: "lookup_val (TrieNode fmempty None) key = None"
  by (cases key) auto

lemma lookup_put_loop_same:
  "key \<noteq> [] \<Longrightarrow> lookup_val (put_loop node key v) key = Some v"
  by (induction node key v rule: put_loop.induct) (auto simp: Let_def split: option.splits)

lemma lookup_put_loop_other:
  "k2 \<noteq> [] \<Longrightarrow> k1 \<noteq> k2 \<Longrightarrow> lookup_val (put_loop node k2 v) k1 = lookup_val node k1"
proof (induction node k2 v arbitrary: k1 rule: put_loop.induct)
  case (1 node v)
  then show ?case by simp
next
  case (2 node k v)
  then show ?case
    by (cases k1; cases "tl k1") (auto simp: Let_def split: option.splits)
next
  case (3 node k k2 key v)
  then show ?case
    by (cases k1) (auto simp: Let_def split: option.splits)
qed

lemma remove_lookup:
  "key \<noteq> [] \<Longrightarrow>
     (case remove n key of
        (True, Some n') \<Rightarrow> lookup_val n' key = None
      | (True, None) \<Rightarrow> True
      | (False, _) \<Rightarrow> lookup_val n key = None)"
proof (induction n key rule: remove.induct)
  case (1 cur k rest)
  then show ?case
    by (cases "rest = []") (auto simp: Let_def split: option.splits prod.splits bool.splits if_splits list.splits)
next
  case (2 cur)
  then show ?case by simp
qed

lemma Get_lookup:
  "Get type_of T (Some r) key = (case lookup_val r key of None \<Rightarrow> None | Some v \<Rightarrow> if type_of v = T then Some v else None)"
  by (simp add: Get_def lookup_val_def split: option.splits)

lemma Put_Some: "\<exists>r. Put t k v = Some r \<and> lookup_val r k = Some v"
  by (cases t; cases "k = []") (auto simp: Put_def lookup_put_loop_same)

lemma Get_None: "Get type_of T None key = None"
  by (simp add: Get_def)

text \<open>
  C7. For every trie \<open>t\<close>, key \<open>k\<close> and value \<open>v\<close>: \<open>Get\<close> of \<open>k\<close> at the type of \<open>v\<close> on
  \<open>t.Put(k, v)\<close> yields \<open>v\<close>; \<open>Get\<close> of \<open>k\<close> (at any type) on \<open>t.Put(k, v).Remove(k)\<close>
  yields null; and for distinct keys \<open>k1\<close>, \<open>k2\<close>, \<open>Get\<close> of \<open>k1\<close> on
  \<open>t.Put(k1, v1).Put(k2, v2)\<close> yields \<open>v1\<close>.
\<close>

theorem trie_put_get_remove:
  "Get type_of (type_of v) (Put t k v) k = Some v \<and>
   Get type_of T (Trie_Remove (Put t k v) k) k = None \<and>
   (k1 \<noteq> k2 \<longrightarrow> Get type_of (type_of v1) (Put (Put t k1 v1) k2 v2) k1 = Some v1)"
proof (intro conjI impI)
  show "Get type_of (type_of v) (Put t k v) k = Some v"
    by (cases t; cases "k = []") (simp_all add: Put_def Get_lookup lookup_put_loop_same)
next
  show "Get type_of T (Trie_Remove (Put t k v) k) k = None"
  proof (cases "k = []")
    case True
    then show ?thesis
      by (cases t) (simp_all add: Put_def Trie_Remove_def Get_lookup)
  next
    case False
    obtain r where r: "Put t k v = Some r"
      using Put_Some[of t k v] by blast
    from remove_lookup[OF False, of r] show ?thesis
      using False r
      by (auto simp: Trie_Remove_def Get_lookup Get_None split: prod.splits bool.splits option.splits)
  qed
next
  assume ne: "k1 \<noteq> k2"
  obtain r where r: "Put t k1 v1 = Some r" and rv: "lookup_val r k1 = Some v1"
    using Put_Some[of t k1 v1] by blast
  show "Get type_of (type_of v1) (Put (Put t k1 v1) k2 v2) k1 = Some v1"
  proof (cases "k2 = []")
    case True
    with ne obtain c cs where "k1 = c # cs" by (cases k1) auto
    with True r rv show ?thesis
      by (simp add: Put_def Get_lookup)
  next
    case False
    with r rv lookup_put_loop_other[OF False ne, of r v2] show ?thesis
      by (simp add: Put_def Get_lookup)
  qed
qed

theorem trie_put_get_remove_witness:
  "''ab'' \<noteq> ''abc'' \<and>
   Get (\<lambda>v::nat. ()) () (Put (Put None ''ab'' 1) ''abc'' 2) ''ab'' = Some 1 \<and>
   Get (\<lambda>v::nat. ()) () (Put (Put None ''ab'' 1) ''ab'' 3) ''ab'' = Some 3 \<and>
   Get (\<lambda>v::nat. ()) () (Trie_Remove (Put (Put None ''ab'' 1) ''ab'' 3) ''ab'') ''ab'' = None"
  using trie_put_get_remove[of "\<lambda>v::nat. ()" 1 None "''ab''" "()" "''ab''" "''abc''" 1 2]
    trie_put_get_remove[of "\<lambda>v::nat. ()" 3 "Put None ''ab'' 1" "''ab''" "()" "''ab''" "''abc''" 1 2]
  by simp

section \<open>The hash table on the example table\<close>

lemmas ht_defs =
  Hash_def ex_hash_def ex_cmp_def as_header_def as_directory_def as_bucket_def fetch_def write_page_def
  NewPageGuarded_def store_DeletePage_def HashToDirectoryIndex_def GetDirectoryPageId_def
  SetDirectoryPageId_def HashToBucketIndex_def dir_Size_def GetBucketPageId_def SetBucketPageId_def
  GetGlobalDepth_def GetLocalDepth_def IncrLocalDepth_def DecrLocalDepth_def IncrGlobalDepth_def
  DecrGlobalDepth_def CanShrink_def CanExpand_def GetLocalDepthMask_def header_Init_def dir_Init_def
  bucket_Init_def bucket_Size_def IsFull_def Lookup_def bucket_Insert_def RemoveAt_def bucket_Remove_def
  MergeBucket_def zero_bucket_def zero_directory_def zero_header_def get_bucket_def split_bucket_def
  merge_test_def INVALID_PAGE_ID_def Let_def upt_conv_Cons
  split_loop.simps merge_dir_loop.simps shrink_loop.simps
  new_PageStore_def new_DiskExtendibleHashTable_def ex_bpm_def ex_table_def
  Insert_def GetValue_def ht_Remove_def exec_op_def results_def
  InsertToDirectory.simps merge_loop.simps

text \<open>
  On a pool that has handed out no page, page 0 is the table's own header page: the
  first \<open>Insert\<close> reads it through the bucket page class.
\<close>

lemma new_table_first_Insert:
  "Insert (5::nat) (5::nat) (new_DiskExtendibleHashTable new_PageStore ex_cmp ex_hash 1 2 1)
     = Some (Inl PageTypeMismatch)"
  by (simp add: ht_defs)

text \<open>
  On \<open>ex_table 1\<close>, \<open>Insert(0, 10)\<close> creates the directory on page 2 and fills the bucket
  on page 0; \<open>Insert(1, 11)\<close> splits it: the directory has depth 1, slot 0 holds page 0
  and slot 1 the new page 3, both with local depth 1.
\<close>

lemma ex_table_two_inserts:
  "\<exists>t d. run [OpInsert 0 10, OpInsert 1 11] (ex_table 1) = Some (Inr ([(True, []), (True, [])], t)) \<and>
     header_page_id' t = 1 \<and> store_next_page_id' t = 4 \<and>
     fetch t 2 = DirectoryP d \<and> max_depth' d = 2 \<and> global_depth' d = 1 \<and>
     local_depths' d 0 = 1 \<and> bucket_page_ids' d 0 = 0 \<and>
     local_depths' d 1 = 1 \<and> bucket_page_ids' d 1 = 3 \<and>
     fetch t 0 = BucketP \<lparr>max_size' = 1, array' = [(0, 10)]\<rparr> \<and>
     fetch t 3 = BucketP \<lparr>max_size' = 1, array' = [(1, 11)]\<rparr> \<and>
     GetValue 0 [] t = Inr (True, [10]) \<and> GetValue 1 [] t = Inr (True, [11])"
  by (simp add: ht_defs)

text \<open>
  C2. After \<open>Insert(0, 10)\<close> and \<open>Insert(1, 11)\<close> on \<open>ex_table 1\<close> the buckets of slots 0
  and 1 both have local depth 1, so the combined group of a merge is both slots.
  \<open>Remove(1)\<close> empties the bucket of slot 1 (page 3) and merges it with its partner
  (page 0): page 3 takes over the entry of page 0 and page 0 is deleted. The
  directory loop starts at \<open>hash & mask = 1\<close> and so never visits slot 0: slot 0
  keeps local depth 1 and the page id of the deleted partner, and only slot 1 is
  decremented and points to the survivor.
\<close>

theorem Remove_merge_skips_group_slot:
  "\<exists>t d. run [OpInsert 0 10, OpInsert 1 11, OpRemove 1] (ex_table 1)
             = Some (Inr ([(True, []), (True, []), (True, [])], t)) \<and>
     fetch t 0 = Blank \<and> fetch t 3 = BucketP \<lparr>max_size' = 1, array' = [(0, 10)]\<rparr> \<and>
     fetch t 2 = DirectoryP d \<and> global_depth' d = 1 \<and>
     local_depths' d 1 = 0 \<and> bucket_page_ids' d 1 = 3 \<and>
     local_depths' d 0 = 1 \<and> bucket_page_ids' d 0 = 0"
  by (simp add: ht_defs)

text \<open>
  C4. After \<open>Insert(0, 10)\<close> on \<open>ex_table 1\<close> the bucket of key 0 is full and the
  directory has global depth 0. \<open>Insert(0, 99)\<close> of the same key returns \<open>false\<close>, but
  only after the full bucket has been split twice: the directory has grown from
  global depth 0 to 2 and two bucket pages have been allocated.
\<close>

theorem duplicate_Insert_splits_full_bucket:
  "\<exists>t1 t2 d1 d2. Insert 0 10 (ex_table 1) = Some (Inr (True, t1)) \<and>
     fetch t1 2 = DirectoryP d1 \<and> global_depth' d1 = 0 \<and> store_next_page_id' t1 = 3 \<and>
     GetValue 0 [] t1 = Inr (True, [10]) \<and>
     Insert 0 99 t1 = Some (Inr (False, t2)) \<and>
     fetch t2 2 = DirectoryP d2 \<and> global_depth' d2 = 2 \<and> store_next_page_id' t2 = 5 \<and>
     GetValue 0 [] t2 = Inr (True, [10])"
  by (simp add: ht_defs)

text \<open>
  C5. The directory that \<open>Insert(0, 10)\<close> and \<open>Insert(1, 11)\<close> build on \<open>ex_table 1\<close> has
  two slots of local depth 1 with their own buckets. After \<open>Remove(1)\<close> slot 1 has
  local depth 0, so every slot agrees with it in the low 0 bits; but slot 0 holds
  another bucket page id and another local depth. The key 0 is no longer found.
\<close>

theorem Remove_breaks_slot_agreement:
  "\<exists>t d. run [OpInsert 0 10, OpInsert 1 11, OpRemove 1] (ex_table 1)
             = Some (Inr ([(True, []), (True, []), (True, [])], t)) \<and>
     fetch t 2 = DirectoryP d \<and> dir_Size d = 2 \<and>
     (0::nat) mod 2 ^ local_depths' d 1 = 1 mod 2 ^ local_depths' d 1 \<and>
     bucket_page_ids' d 0 \<noteq> bucket_page_ids' d 1 \<and>
     local_depths' d 0 \<noteq> local_depths' d 1 \<and>
     GetValue 0 [] t = Inr (False, [])"
  by (simp add: ht_defs)

text \<open>
  C1, as stated, fails. On \<open>ex_table 2\<close> the last \<open>Insert(7, 2)\<close> is not followed by a
  \<open>Remove(7)\<close>, yet \<open>GetValue(7)\<close> returns \<open>[1]\<close>: the bucket has room, and its \<open>Insert\<close>
  rejects the second insert as a duplicate.
\<close>

theorem GetValue_after_duplicate_Insert:
  "results [OpInsert 7 1, OpInsert 7 2, OpGetValue 7] (ex_table 2)
     = Some [(True, []), (False, []), (True, [1])]"
  by (simp add: ht_defs)
end
